theory Spec2Isabelle
  imports Complex_Main
begin

section \<open>Python strings and values\<close>

text \<open>
  A Python \<open>str\<close> is modelled as a \<open>string\<close> holding its UTF-8 bytes. The Japanese
  literals of \<open>bots/base_bot.py\<close> are therefore byte lists. None of the functions below
  counts code points, and ASCII substring search on UTF-8 bytes agrees with the search on
  code points.
\<close>

datatype exn = TypeError | AttributeError | ValueError | OtherError string

text \<open>Every exception above derives from Python's \<open>Exception\<close>.\<close>

definition newline :: string where
  "newline = [CHR 0x0A]"

fun startswith :: "string \<Rightarrow> string \<Rightarrow> bool" where
  "startswith s [] = True"
| "startswith [] (p # ps) = False"
| "startswith (c # cs) (p # ps) = (c = p \<and> startswith cs ps)"

text \<open>\<open>py_in sub s\<close> is Python's \<open>sub in s\<close> on strings.\<close>

fun py_in :: "string \<Rightarrow> string \<Rightarrow> bool" where
  "py_in sub [] = (sub = [])"
| "py_in sub (c # cs) = (startswith (c # cs) sub \<or> py_in sub cs)"

text \<open>
  \<open>str.lower()\<close> on the ASCII letters; every other byte is kept. The markers searched for
  after lowering (\<open>gpt-4o\<close>, \<open>claude\<close>) contain no letter that Unicode lowering produces
  from a character outside ASCII.
\<close>

definition lower_char :: "char \<Rightarrow> char" where
  "lower_char c =
     (case map_of (zip ''ABCDEFGHIJKLMNOPQRSTUVWXYZ'' ''abcdefghijklmnopqrstuvwxyz'') c of
        Some d \<Rightarrow> d | None \<Rightarrow> c)"

definition lower :: "string \<Rightarrow> string" where
  "lower s = map lower_char s"

text \<open>\<open>py_join sep xs\<close> is \<open>sep.join(xs)\<close>.\<close>

fun py_join :: "string \<Rightarrow> string list \<Rightarrow> string" where
  "py_join sep [] = []"
| "py_join sep [x] = x"
| "py_join sep (x # y # ys) = x @ sep @ py_join sep (y # ys)"

text \<open>\<open>py_split_lines s\<close> is \<open>s.split("\n")\<close>: the lines of a text.\<close>

fun py_split_lines :: "string \<Rightarrow> string list" where
  "py_split_lines [] = [[]]"
| "py_split_lines (c # cs) =
     (if c = CHR 0x0A then [] # py_split_lines cs
      else (case py_split_lines cs of
              [] \<Rightarrow> [[c]]
            | l # ls \<Rightarrow> (c # l) # ls))"


text \<open>ASCII white space as \<open>str.strip()\<close> and \<open>int()\<close> see it.\<close>

definition is_space :: "char \<Rightarrow> bool" where
  "is_space c = (c \<in> set [CHR 0x20, CHR 0x09, CHR 0x0A, CHR 0x0B, CHR 0x0C, CHR 0x0D,
                            CHR 0x1C, CHR 0x1D, CHR 0x1E, CHR 0x1F])"

definition strip :: "string \<Rightarrow> string" where
  "strip s = rev (dropWhile is_space (rev (dropWhile is_space s)))"

definition digit_val :: "char \<Rightarrow> int option" where
  "digit_val c = map_of (zip ''0123456789'' [0, 1, 2, 3, 4, 5, 6, 7, 8, 9]) c"

text \<open>
  The digits of a decimal literal, single underscores allowed between digits; \<open>prev\<close> says
  that the character before was a digit.
\<close>

fun parse_digits :: "bool \<Rightarrow> int \<Rightarrow> string \<Rightarrow> int option" where
  "parse_digits prev acc [] = (if prev then Some acc else None)"
| "parse_digits prev acc (c # cs) =
     (case digit_val c of
        Some d \<Rightarrow> parse_digits True (acc * 10 + d) cs
      | None \<Rightarrow> (if c = CHR ''_'' \<and> prev then parse_digits False acc cs else None))"

text \<open>
  \<open>int(s)\<close> for a string in base ten, on ASCII input: surrounding white space, an optional
  sign, digits. Anything else raises \<open>ValueError\<close>.
\<close>

definition py_int :: "string \<Rightarrow> exn + int" where
  "py_int s =
     (case strip s of
        [] \<Rightarrow> Inl ValueError
      | c # cs \<Rightarrow>
          (if c = CHR ''-'' then
             (case parse_digits False 0 cs of None \<Rightarrow> Inl ValueError | Some n \<Rightarrow> Inr (- n))
           else if c = CHR ''+'' then
             (case parse_digits False 0 cs of None \<Rightarrow> Inl ValueError | Some n \<Rightarrow> Inr n)
           else
             (case parse_digits False 0 (c # cs) of None \<Rightarrow> Inl ValueError | Some n \<Rightarrow> Inr n)))"

text \<open>
  The values a character dictionary holds: a string, or a list of strings (the interests).
\<close>

datatype pyval = Str string | StrList "string list"

text \<open>
  \<open>repr\<close> of a string: single quotes unless the text has a single quote and no double
  quote; backslash, the quote and the ASCII control characters are escaped, every other byte
  is kept.
\<close>

definition hex_digit :: "nat \<Rightarrow> char" where
  "hex_digit n = ''0123456789abcdef'' ! (n mod 16)"

definition repr_char :: "char \<Rightarrow> char \<Rightarrow> string" where
  "repr_char q c =
     (if c = CHR 0x5C then [CHR 0x5C, CHR 0x5C]
      else if c = q then [CHR 0x5C, q]
      else if c = CHR 0x09 then [CHR 0x5C, CHR ''t'']
      else if c = CHR 0x0A then [CHR 0x5C, CHR ''n'']
      else if c = CHR 0x0D then [CHR 0x5C, CHR ''r'']
      else if (of_char c :: nat) < 32 \<or> (of_char c :: nat) = 127 then
        [CHR 0x5C, CHR ''x'', hex_digit ((of_char c :: nat) div 16), hex_digit (of_char c :: nat)]
      else [c])"

definition py_repr :: "string \<Rightarrow> string" where
  "py_repr s =
     (let q = (if CHR 0x27 \<in> set s \<and> CHR 0x22 \<notin> set s then CHR 0x22 else CHR 0x27)
      in [q] @ concat (map (repr_char q) s) @ [q])"

text \<open>\<open>py_str v\<close> is what an f-string puts for \<open>{v}\<close>.\<close>

fun py_str :: "pyval \<Rightarrow> string" where
  "py_str (Str s) = s"
| "py_str (StrList xs) = ''['' @ py_join '', '' (map py_repr xs) @ '']''"

text \<open>
  A Python \<open>dict\<close> with string keys, as an association list with \<open>map_of\<close> for lookup.
\<close>

type_synonym character = "(string \<times> pyval) list"

definition dict_has :: "string \<Rightarrow> character \<Rightarrow> bool" where
  "dict_has k d = (map_of d k \<noteq> None)"

definition dict_get :: "character \<Rightarrow> string \<Rightarrow> pyval \<Rightarrow> pyval" where
  "dict_get d k dflt = (case map_of d k of None \<Rightarrow> dflt | Some v \<Rightarrow> v)"

section \<open>The conversation manager\<close>

text \<open>
  Modelled from the spec: \<open>utils/conversation.py\<close> (class \<open>ConversationManager\<close>) is not
  among the sources. The spec's ConversationStore keeps the ordered utterances and a turn
  counter.
\<close>

record utterance =
  utt_author :: string
  utt_content :: string
  is_bot_reply :: bool

record conversation_manager =
  history :: "utterance list"
  turns :: nat

definition new_conversation_manager :: conversation_manager where
  "new_conversation_manager = \<lparr>history = [], turns = 0\<rparr>"

text \<open>
  Modelled from the spec: \<open>add\<close> appends an utterance and increments the turn counter only
  when the utterance is not the bot's own reply. The source marks the bot's reply by passing
  \<open>bot_name\<close>; an inbound message is added without it.
\<close>

definition add_message :: "string \<Rightarrow> string \<Rightarrow> string option \<Rightarrow> conversation_manager
    \<Rightarrow> conversation_manager" where
  "add_message a c bot_name cm =
     (let own = (bot_name = Some a) in
      \<lparr>history = history cm @ [\<lparr>utt_author = a, utt_content = c, is_bot_reply = own\<rparr>],
       turns = (if own then turns cm else turns cm + 1)\<rparr>)"

text \<open>Modelled from the spec: \<open>should_cool_down\<close> is true iff the turn count has reached
  \<open>max_turns\<close>.\<close>

definition should_cool_down :: "conversation_manager \<Rightarrow> int \<Rightarrow> bool" where
  "should_cool_down cm max_turns = (int (turns cm) \<ge> max_turns)"

text \<open>Modelled from the spec: \<open>reset_turns\<close> sets the counter to zero and keeps the stored
  utterances.\<close>

definition reset_conversation_turns :: "conversation_manager \<Rightarrow> conversation_manager" where
  "reset_conversation_turns cm = cm\<lparr>turns := 0\<rparr>"

record llm_message =
  role :: string
  body :: "string option"

text \<open>
  Modelled from the spec: \<open>format_for_backend\<close> renders the system prompt first, then each
  stored utterance in order, with role \<open>assistant\<close> for the bot's own replies and \<open>user\<close>
  otherwise. The two dialects carry the same content in the same order; the constructor stands
  for the wire shape. The system prompt the source passes may be \<open>None\<close>.
\<close>

definition render_turns :: "conversation_manager \<Rightarrow> llm_message list" where
  "render_turns cm =
     map (\<lambda>u. \<lparr>role = (if is_bot_reply u then ''assistant'' else ''user''),
               body = Some (utt_content u)\<rparr>) (history cm)"

datatype llm_request = OpenAI "llm_message list" | Anthropic "llm_message list"

definition format_for_openai :: "conversation_manager \<Rightarrow> string option \<Rightarrow> llm_request" where
  "format_for_openai cm sp = OpenAI (\<lparr>role = ''system'', body = sp\<rparr> # render_turns cm)"

definition format_for_anthropic :: "conversation_manager \<Rightarrow> string option \<Rightarrow> llm_request" where
  "format_for_anthropic cm sp = Anthropic (\<lparr>role = ''system'', body = sp\<rparr> # render_turns cm)"

section \<open>The bot\<close>

text \<open>The fields of \<open>BaseDiscordBot\<close>. Times of the event loop are idealised as reals.\<close>

record bot =
  user :: "string option"
  notion_character_name :: string
  character_name :: string
  command_prefix :: string
  channel_id :: int
  min_response_delay :: int
  max_response_delay :: int
  max_conversation_turns :: int
  base_role :: string
  conversation_manager :: conversation_manager
  character :: "character option"
  system_prompt :: "string option"
  in_cooldown :: bool
  cooldown_until :: real

text \<open>An inbound message event of the gateway.\<close>

record message =
  msg_author :: string
  msg_display_name :: string
  msg_content :: string
  msg_channel_id :: int

datatype task = RespondToMessage message | ResetCooldownAfter int

datatype level = INFO | WARNING | ERROR

text \<open>
  One constructor for each logging message of the source; the six lines that report the
  loaded settings are one event.
\<close>

datatype log_event =
    BaseRoleLoadFailed exn
  | LoggedIn
  | JoinedChannel
  | SentIntroduction
  | ChannelNotFound
  | CoolingDownAfterTurns int
  | LookingUpCharacter
  | CharacterNotFoundUsingDefault
  | CharacterLoaded
  | FailedToLoadCharacter exn
  | FailedToRespond exn
  | CoolingDownFor int
  | CooldownEnded
  | NoChannelForScheduledMessage
  | SentScheduledMessage

text \<open>What a handler does to the outside, in the order it does it.\<close>

datatype effect =
    Log level log_event
  | ProcessCommands message
  | CreateTask task
  | Send int string
  | DelayResponse int int
  | SimulateTyping int int
  | GenerateResponse llm_request pyval
  | Sleep int

subsection \<open>Construction\<close>

definition default_base_role :: string where
  "default_base_role =
     [CHR 0xE3, CHR 0x81, CHR 0x82, CHR 0xE3, CHR 0x81, CHR 0xAA, CHR 0xE3, CHR 0x81, CHR 0x9F,
      CHR 0xE3, CHR 0x81, CHR 0xAF, CHR 0x44, CHR 0x69, CHR 0x73, CHR 0x63, CHR 0x6F, CHR 0x72,
      CHR 0x64, CHR 0xE3, CHR 0x83, CHR 0x81, CHR 0xE3, CHR 0x83, CHR 0xA3, CHR 0xE3, CHR 0x83,
      CHR 0x83, CHR 0xE3, CHR 0x83, CHR 0x88, CHR 0xE3, CHR 0x81, CHR 0xAB, CHR 0xE5, CHR 0x8F,
      CHR 0x82, CHR 0xE5, CHR 0x8A, CHR 0xA0, CHR 0xE3, CHR 0x81, CHR 0x99, CHR 0xE3, CHR 0x82,
      CHR 0x8B, CHR 0x41, CHR 0x49, CHR 0xE3, CHR 0x83, CHR 0x9C, CHR 0xE3, CHR 0x83, CHR 0x83,
      CHR 0xE3, CHR 0x83, CHR 0x88, CHR 0xE3, CHR 0x81, CHR 0xA7, CHR 0xE3, CHR 0x81, CHR 0x99,
      CHR 0xE3, CHR 0x80, CHR 0x82, CHR 0xE4, CHR 0xBC, CHR 0x9A, CHR 0xE8, CHR 0xA9, CHR 0xB1,
      CHR 0xE3, CHR 0x81, CHR 0xAE, CHR 0xE6, CHR 0xB5, CHR 0x81, CHR 0xE3, CHR 0x82, CHR 0x8C,
      CHR 0xE3, CHR 0x81, CHR 0xAB, CHR 0xE8, CHR 0x87, CHR 0xAA, CHR 0xE7, CHR 0x84, CHR 0xB6,
      CHR 0xE3, CHR 0x81, CHR 0xAB, CHR 0xE5, CHR 0xBF, CHR 0x9C, CHR 0xE7, CHR 0xAD, CHR 0x94,
      CHR 0xE3, CHR 0x81, CHR 0x97, CHR 0xE3, CHR 0x80, CHR 0x81, CHR 0xE5, CHR 0xB8, CHR 0xB8,
      CHR 0xE3, CHR 0x81, CHR 0xAB, CHR 0xE3, CHR 0x82, CHR 0xAD, CHR 0xE3, CHR 0x83, CHR 0xA3,
      CHR 0xE3, CHR 0x83, CHR 0xA9, CHR 0xE3, CHR 0x82, CHR 0xAF, CHR 0xE3, CHR 0x82, CHR 0xBF,
      CHR 0xE3, CHR 0x83, CHR 0xBC, CHR 0xE3, CHR 0x82, CHR 0x92, CHR 0xE7, CHR 0xB6, CHR 0xAD,
      CHR 0xE6, CHR 0x8C, CHR 0x81, CHR 0xE3, CHR 0x81, CHR 0x97, CHR 0xE3, CHR 0x81, CHR 0xA6,
      CHR 0xE3, CHR 0x81, CHR 0x8F, CHR 0xE3, CHR 0x81, CHR 0xA0, CHR 0xE3, CHR 0x81, CHR 0x95,
      CHR 0xE3, CHR 0x81, CHR 0x84, CHR 0xE3, CHR 0x80, CHR 0x82]"

text \<open>\<open>_load_base_role\<close>: the argument is the outcome of reading \<open>config/base_role.txt\<close>.\<close>

definition load_base_role :: "exn + string \<Rightarrow> string \<times> effect list" where
  "load_base_role file =
     (case file of
        Inr txt \<Rightarrow> (strip txt, [])
      | Inl e \<Rightarrow> (default_base_role, [Log ERROR (BaseRoleLoadFailed e)]))"

text \<open>\<open>int(os.environ.get(key, dflt))\<close>.\<close>

definition env_int :: "(string \<Rightarrow> string option) \<Rightarrow> string \<Rightarrow> string \<Rightarrow> exn + int" where
  "env_int environ key dflt = py_int (case environ key of None \<Rightarrow> dflt | Some v \<Rightarrow> v)"

text \<open>\<open>__init__\<close>, with the process environment and the outcome of the file read.\<close>

definition init_bot :: "(string \<Rightarrow> string option) \<Rightarrow> exn + string \<Rightarrow> string \<Rightarrow> string
    \<Rightarrow> exn + (bot \<times> effect list)" where
  "init_bot environ file name prefix =
     (case env_int environ ''CHANNEL_ID'' ''0'' of Inl e \<Rightarrow> Inl e | Inr cid \<Rightarrow>
      (case env_int environ ''MIN_RESPONSE_DELAY'' ''5'' of Inl e \<Rightarrow> Inl e | Inr dmin \<Rightarrow>
      (case env_int environ ''MAX_RESPONSE_DELAY'' ''15'' of Inl e \<Rightarrow> Inl e | Inr dmax \<Rightarrow>
      (case env_int environ ''MAX_CONVERSATION_TURNS'' ''10'' of Inl e \<Rightarrow> Inl e | Inr mt \<Rightarrow>
         (let (br, effs) = load_base_role file in
          Inr (\<lparr>user = None,
                notion_character_name = name,
                character_name = name,
                command_prefix = prefix,
                channel_id = cid,
                min_response_delay = dmin,
                max_response_delay = dmax,
                max_conversation_turns = mt,
                base_role = br,
                conversation_manager = new_conversation_manager,
                character = None,
                system_prompt = None,
                in_cooldown = False,
                cooldown_until = 0\<rparr>, effs))))))"

subsection \<open>The message handler\<close>

text \<open>
  \<open>on_message\<close>. The eligibility hook \<open>should_respond_to_message\<close> is a parameter, as a
  subclass may replace it; \<open>randint\<close> stands for \<open>random.randint\<close> and \<open>now\<close> for the
  event loop's clock. Every \<open>return\<close> of the source is one branch.
\<close>

definition should_respond_to_message :: "message \<Rightarrow> bool" where
  "should_respond_to_message m = True"

definition on_message :: "(message \<Rightarrow> bool) \<Rightarrow> (int \<Rightarrow> int \<Rightarrow> int) \<Rightarrow> real \<Rightarrow> bot \<Rightarrow> message
    \<Rightarrow> bot \<times> effect list" where
  "on_message hook randint now b m =
     (if Some (msg_author m) = user b then (b, [])
      else if channel_id b \<noteq> 0 \<and> msg_channel_id m \<noteq> channel_id b then (b, [])
      else if startswith (msg_content m) (command_prefix b) then (b, [ProcessCommands m])
      else if in_cooldown b then (b, [ProcessCommands m])
      else
        (let cm = add_message (msg_display_name m) (msg_content m) None (conversation_manager b)
         in if should_cool_down cm (max_conversation_turns b) then
              (let cooldown_minutes = randint 1 3 in
               (b\<lparr>conversation_manager := reset_conversation_turns cm,
                  in_cooldown := True,
                  cooldown_until := now + of_int (cooldown_minutes * 60)\<rparr>,
                [ProcessCommands m,
                 Log INFO (CoolingDownAfterTurns (max_conversation_turns b)),
                 CreateTask (ResetCooldownAfter cooldown_minutes)]))
            else
              (b\<lparr>conversation_manager := cm\<rparr>,
               ProcessCommands m #
                 (if hook m then [CreateTask (RespondToMessage m)] else []))))"

text \<open>
  \<open>reset_cooldown_after\<close> is a coroutine with one suspension: the part before the sleep,
  and the part that runs when the sleep is over.
\<close>

definition reset_cooldown_after_start :: "int \<Rightarrow> effect list" where
  "reset_cooldown_after_start minutes = [Log INFO (CoolingDownFor minutes), Sleep (minutes * 60)]"

definition reset_cooldown_after_resume :: "bot \<Rightarrow> bot \<times> effect list" where
  "reset_cooldown_after_resume b = (b\<lparr>in_cooldown := False\<rparr>, [Log INFO CooldownEnded])"

subsection \<open>Persona and system prompt\<close>

definition default_character :: "string \<Rightarrow> character" where
  "default_character n =
     [(''name'', Str n),
      (''personality'', Str ''Friendly and helpful''),
      (''speaking_style'', Str ''Casual and conversational''),
      (''language'', Str ''English''),
      (''model'', Str ''gpt-4'')]"

text \<open>
  The persona service is an outside collaborator: its two calls are parameters, each
  returning a value or raising.
\<close>

record notion_service =
  get_character :: "string \<Rightarrow> exn + character option"
  format_character_prompt :: "character \<Rightarrow> string \<Rightarrow> exn + string"

text \<open>
  Modelled from the spec: \<open>services/notion_service.py\<close>, with
  \<open>NotionService.format_character_prompt\<close>, is not among the sources. The spec's
  \<open>build_system_prompt\<close> concatenates the base role text with a rendering of the persona
  fields; if the base role text is unavailable, it falls back to a one-line instruction that
  names the persona. How the fields are rendered is a parameter.
\<close>

definition build_system_prompt :: "(character \<Rightarrow> string) \<Rightarrow> character \<Rightarrow> string \<Rightarrow> string" where
  "build_system_prompt render c base =
     (if base \<noteq> [] then base @ render c
      else ''You are '' @ py_str (dict_get c ''name'' (Str [])) @ ''.'')"

text \<open>
  Modelled from the spec: a persona service whose formatter is \<open>build_system_prompt\<close>;
  the lookup is still any function that returns or raises.
\<close>

definition spec_notion :: "(string \<Rightarrow> exn + character option) \<Rightarrow> (character \<Rightarrow> string)
    \<Rightarrow> notion_service" where
  "spec_notion lookup render =
     \<lparr>get_character = lookup,
      format_character_prompt = (\<lambda>c base. Inr (build_system_prompt render c base))\<rparr>"

text \<open>
  The \<open>try\<close> block of \<open>load_character_settings\<close>: the state and the log when it ends, and
  the exception it ended with, if any.
\<close>

definition load_try :: "notion_service \<Rightarrow> bot \<Rightarrow> bot \<times> effect list \<times> exn option" where
  "load_try ns b =
     (case get_character ns (notion_character_name b) of
        Inl e \<Rightarrow> (b, [], Some e)
      | Inr c \<Rightarrow>
          (let falsy = (case c of None \<Rightarrow> True | Some d \<Rightarrow> d = []);
               ch = (if falsy then default_character (notion_character_name b)
                     else (case c of None \<Rightarrow> [] | Some d \<Rightarrow> d));
               b1 = b\<lparr>character := Some ch\<rparr>;
               warn = (if falsy then [Log WARNING CharacterNotFoundUsingDefault] else [])
           in (case format_character_prompt ns ch (base_role b1) of
                 Inl e \<Rightarrow> (b1, warn, Some e)
               | Inr p \<Rightarrow> (b1\<lparr>system_prompt := Some p\<rparr>,
                           warn @ [Log INFO CharacterLoaded], None))))"

definition fallback_prompt :: "bot \<Rightarrow> string" where
  "fallback_prompt b =
     (if base_role b \<noteq> [] then
        ''You are '' @ notion_character_name b @ ''.'' @ newline @ newline @ base_role b
      else ''You are '' @ notion_character_name b @ ''. Be friendly and helpful.'')"

text \<open>
  \<open>load_character_settings\<close>: the \<open>try\<close> block and its \<open>except Exception\<close> handler. The
  third component is the exception that leaves the function.
\<close>

definition load_character_settings :: "notion_service \<Rightarrow> bot \<Rightarrow> bot \<times> effect list \<times> exn option"
  where
  "load_character_settings ns b =
     (case load_try ns b of
        (b1, effs, None) \<Rightarrow> (b1, Log INFO LookingUpCharacter # effs, None)
      | (b1, effs, Some e) \<Rightarrow>
          (b1\<lparr>character := Some (default_character (notion_character_name b1)),
              system_prompt := Some (fallback_prompt b1)\<rparr>,
           Log INFO LookingUpCharacter # effs @ [Log ERROR (FailedToLoadCharacter e)],
           None))"

definition bot_names :: "string list" where
  "bot_names = [''gpt-4o-animal'', ''claude-animal'', ''gpt-4o'', ''claude'']"

definition bot_response_guidance :: string where
  "bot_response_guidance =
     [CHR 0x0A]
     @
     [CHR 0x20, CHR 0x20, CHR 0x20, CHR 0x20, CHR 0x20, CHR 0x20, CHR 0x20, CHR 0x20, CHR 0x20,
      CHR 0x20, CHR 0x20, CHR 0x20, CHR 0x0A]
     @
     [CHR 0xE7, CHR 0x8F, CHR 0xBE, CHR 0xE5, CHR 0x9C, CHR 0xA8, CHR 0xE3, CHR 0x80, CHR 0x81,
      CHR 0xE3, CHR 0x81, CHR 0x82, CHR 0xE3, CHR 0x81, CHR 0xAA, CHR 0xE3, CHR 0x81, CHR 0x9F,
      CHR 0xE3, CHR 0x81, CHR 0xAF, CHR 0xE4, CHR 0xBB, CHR 0x96, CHR 0xE3, CHR 0x81, CHR 0xAE,
      CHR 0x41, CHR 0x49, CHR 0xE3, CHR 0x83, CHR 0x9C, CHR 0xE3, CHR 0x83, CHR 0x83, CHR 0xE3,
      CHR 0x83, CHR 0x88, CHR 0xE3, CHR 0x81, CHR 0x8B, CHR 0xE3, CHR 0x82, CHR 0x89, CHR 0xE3,
      CHR 0x81, CHR 0xAE, CHR 0xE8, CHR 0xB3, CHR 0xAA, CHR 0xE5, CHR 0x95, CHR 0x8F, CHR 0xE3,
      CHR 0x81, CHR 0xAB, CHR 0xE5, CHR 0xBF, CHR 0x9C, CHR 0xE7, CHR 0xAD, CHR 0x94, CHR 0xE3,
      CHR 0x81, CHR 0x97, CHR 0xE3, CHR 0x81, CHR 0xA6, CHR 0xE3, CHR 0x81, CHR 0x84, CHR 0xE3,
      CHR 0x81, CHR 0xBE, CHR 0xE3, CHR 0x81, CHR 0x99, CHR 0xE3, CHR 0x80, CHR 0x82, CHR 0xE4,
      CHR 0xBB, CHR 0xA5, CHR 0xE4, CHR 0xB8, CHR 0x8B, CHR 0xE3, CHR 0x81, CHR 0xAE, CHR 0xE3,
      CHR 0x82, CHR 0xAC, CHR 0xE3, CHR 0x82, CHR 0xA4, CHR 0xE3, CHR 0x83, CHR 0x89, CHR 0xE3,
      CHR 0x83, CHR 0xA9, CHR 0xE3, CHR 0x82, CHR 0xA4, CHR 0xE3, CHR 0x83, CHR 0xB3, CHR 0xE3,
      CHR 0x81, CHR 0xAB, CHR 0xE5, CHR 0xBE, CHR 0x93, CHR 0xE3, CHR 0x81, CHR 0xA3, CHR 0xE3,
      CHR 0x81, CHR 0xA6, CHR 0xE3, CHR 0x81, CHR 0x8F, CHR 0xE3, CHR 0x81, CHR 0xA0, CHR 0xE3,
      CHR 0x81, CHR 0x95, CHR 0xE3, CHR 0x81, CHR 0x84, CHR 0xEF, CHR 0xBC, CHR 0x9A, CHR 0x0A]
     @
     [CHR 0x31, CHR 0x2E, CHR 0x20, CHR 0xE3, CHR 0x80, CHR 0x8C, CHR 0xE3, CHR 0x81, CHR 0x94,
      CHR 0xE6, CHR 0x8C, CHR 0x87, CHR 0xE6, CHR 0x91, CHR 0x98, CHR 0xE3, CHR 0x81, CHR 0xAE,
      CHR 0xE9, CHR 0x80, CHR 0x9A, CHR 0xE3, CHR 0x82, CHR 0x8A, CHR 0xE3, CHR 0x81, CHR 0xA7,
      CHR 0xE3, CHR 0x81, CHR 0x99, CHR 0xE3, CHR 0x81, CHR 0xAD, CHR 0xE3, CHR 0x80, CHR 0x8D,
      CHR 0xE3, CHR 0x80, CHR 0x8C, CHR 0xE3, CHR 0x81, CHR 0x8A, CHR 0xE3, CHR 0x81, CHR 0xA3,
      CHR 0xE3, CHR 0x81, CHR 0x97, CHR 0xE3, CHR 0x82, CHR 0x83, CHR 0xE3, CHR 0x82, CHR 0x8B,
      CHR 0xE9, CHR 0x80, CHR 0x9A, CHR 0xE3, CHR 0x82, CHR 0x8A, CHR 0xE3, CHR 0x81, CHR 0xA7,
      CHR 0xE3, CHR 0x81, CHR 0x99, CHR 0xE3, CHR 0x80, CHR 0x8D, CHR 0xE3, CHR 0x81, CHR 0xAA,
      CHR 0xE3, CHR 0x81, CHR 0xA9, CHR 0xE3, CHR 0x81, CHR 0xAE, CHR 0xE5, CHR 0x90, CHR 0x8C,
      CHR 0xE6, CHR 0x84, CHR 0x8F, CHR 0xE3, CHR 0x81, CHR 0x8B, CHR 0xE3, CHR 0x82, CHR 0x89,
      CHR 0xE5, CHR 0xA7, CHR 0x8B, CHR 0xE3, CHR 0x82, CHR 0x81, CHR 0xE3, CHR 0x81, CHR 0xAA,
      CHR 0xE3, CHR 0x81, CHR 0x84, CHR 0xE3, CHR 0x81, CHR 0xA7, CHR 0xE3, CHR 0x81, CHR 0x8F,
      CHR 0xE3, CHR 0x81, CHR 0xA0, CHR 0xE3, CHR 0x81, CHR 0x95, CHR 0xE3, CHR 0x81, CHR 0x84,
      CHR 0x0A]
     @
     [CHR 0x32, CHR 0x2E, CHR 0x20, CHR 0xE8, CHR 0xB3, CHR 0xAA, CHR 0xE5, CHR 0x95, CHR 0x8F,
      CHR 0xE3, CHR 0x81, CHR 0xAB, CHR 0xE7, CHR 0x9B, CHR 0xB4, CHR 0xE6, CHR 0x8E, CHR 0xA5,
      CHR 0xE7, CHR 0xAD, CHR 0x94, CHR 0xE3, CHR 0x81, CHR 0x88, CHR 0xE3, CHR 0x80, CHR 0x81,
      CHR 0xE7, CHR 0x9B, CHR 0xB8, CHR 0xE6, CHR 0x89, CHR 0x8B, CHR 0xE3, CHR 0x81, CHR 0xAE,
      CHR 0xE7, CHR 0x99, CHR 0xBA, CHR 0xE8, CHR 0xA8, CHR 0x80, CHR 0xE5, CHR 0x86, CHR 0x85,
      CHR 0xE5, CHR 0xAE, CHR 0xB9, CHR 0xE3, CHR 0x82, CHR 0x92, CHR 0xE5, CHR 0x85, CHR 0x88,
      CHR 0xE3, CHR 0x81, CHR 0xAB, CHR 0xE7, CHR 0x9F, CHR 0xA5, CHR 0xE3, CHR 0x81, CHR 0xA3,
      CHR 0xE3, CHR 0x81, CHR 0xA6, CHR 0xE3, CHR 0x81, CHR 0x84, CHR 0xE3, CHR 0x81, CHR 0x9F,
      CHR 0xE3, CHR 0x81, CHR 0x8B, CHR 0xE3, CHR 0x81, CHR 0xAE, CHR 0xE3, CHR 0x82, CHR 0x88,
      CHR 0xE3, CHR 0x81, CHR 0x86, CHR 0xE3, CHR 0x81, CHR 0xAA, CHR 0xE8, CHR 0xA1, CHR 0xA8,
      CHR 0xE7, CHR 0x8F, CHR 0xBE, CHR 0xE3, CHR 0x81, CHR 0xAF, CHR 0xE9, CHR 0x81, CHR 0xBF,
      CHR 0xE3, CHR 0x81, CHR 0x91, CHR 0xE3, CHR 0x81, CHR 0xA6, CHR 0xE3, CHR 0x81, CHR 0x8F,
      CHR 0xE3, CHR 0x81, CHR 0xA0, CHR 0xE3, CHR 0x81, CHR 0x95, CHR 0xE3, CHR 0x81, CHR 0x84,
      CHR 0x0A]
     @
     [CHR 0x33, CHR 0x2E, CHR 0x20, CHR 0xE8, CHR 0x87, CHR 0xAA, CHR 0xE5, CHR 0x88, CHR 0x86,
      CHR 0xE3, CHR 0x81, CHR 0xAE, CHR 0xE8, CHR 0x80, CHR 0x83, CHR 0xE3, CHR 0x81, CHR 0x88,
      CHR 0xE3, CHR 0x82, CHR 0x84, CHR 0xE6, CHR 0x84, CHR 0x8F, CHR 0xE8, CHR 0xA6, CHR 0x8B,
      CHR 0xE3, CHR 0x82, CHR 0x92, CHR 0xE8, CHR 0xBF, CHR 0xB0, CHR 0xE3, CHR 0x81, CHR 0xB9,
      CHR 0xE3, CHR 0x82, CHR 0x8B, CHR 0xE9, CHR 0x9A, CHR 0x9B, CHR 0xE3, CHR 0x81, CHR 0xAF,
      CHR 0xE3, CHR 0x80, CHR 0x81, CHR 0xE3, CHR 0x80, CHR 0x8C, CHR 0xE7, CHR 0xA7, CHR 0x81,
      CHR 0xE3, CHR 0x81, CHR 0xAF, CHR 0xE3, CHR 0x80, CHR 0x9C, CHR 0xE3, CHR 0x81, CHR 0xA8,
      CHR 0xE8, CHR 0x80, CHR 0x83, CHR 0xE3, CHR 0x81, CHR 0x88, CHR 0xE3, CHR 0x81, CHR 0xBE,
      CHR 0xE3, CHR 0x81, CHR 0x99, CHR 0xE3, CHR 0x80, CHR 0x8D, CHR 0xE3, CHR 0x80, CHR 0x8C,
      CHR 0xE7, CHR 0xA7, CHR 0x81, CHR 0xE3, CHR 0x81, CHR 0xAE, CHR 0xE8, CHR 0xA6, CHR 0x8B,
      CHR 0xE8, CHR 0xA7, CHR 0xA3, CHR 0xE3, CHR 0x81, CHR 0xA7, CHR 0xE3, CHR 0x81, CHR 0xAF,
      CHR 0xE3, CHR 0x80, CHR 0x9C, CHR 0xE3, CHR 0x80, CHR 0x8D, CHR 0xE3, CHR 0x81, CHR 0xAA,
      CHR 0xE3, CHR 0x81, CHR 0xA9, CHR 0xE3, CHR 0x81, CHR 0xAE, CHR 0xE8, CHR 0xA1, CHR 0xA8,
      CHR 0xE7, CHR 0x8F, CHR 0xBE, CHR 0xE3, CHR 0x82, CHR 0x92, CHR 0xE4, CHR 0xBD, CHR 0xBF,
      CHR 0xE3, CHR 0x81, CHR 0xA3, CHR 0xE3, CHR 0x81, CHR 0xA6, CHR 0xE3, CHR 0x81, CHR 0x8F,
      CHR 0xE3, CHR 0x81, CHR 0xA0, CHR 0xE3, CHR 0x81, CHR 0x95, CHR 0xE3, CHR 0x81, CHR 0x84,
      CHR 0x0A]
     @
     [CHR 0x34, CHR 0x2E, CHR 0x20, CHR 0xE4, CHR 0xBC, CHR 0x9A, CHR 0xE8, CHR 0xA9, CHR 0xB1,
      CHR 0xE3, CHR 0x81, CHR 0xAE, CHR 0xE8, CHR 0x87, CHR 0xAA, CHR 0xE7, CHR 0x84, CHR 0xB6,
      CHR 0xE3, CHR 0x81, CHR 0xAA, CHR 0xE6, CHR 0xB5, CHR 0x81, CHR 0xE3, CHR 0x82, CHR 0x8C,
      CHR 0xE3, CHR 0x82, CHR 0x92, CHR 0xE7, CHR 0xB6, CHR 0xAD, CHR 0xE6, CHR 0x8C, CHR 0x81,
      CHR 0xE3, CHR 0x81, CHR 0x97, CHR 0xE3, CHR 0x81, CHR 0xA4, CHR 0xE3, CHR 0x81, CHR 0xA4,
      CHR 0xE3, CHR 0x80, CHR 0x81, CHR 0xE4, CHR 0xB8, CHR 0x8D, CHR 0xE8, CHR 0x87, CHR 0xAA,
      CHR 0xE7, CHR 0x84, CHR 0xB6, CHR 0xE3, CHR 0x81, CHR 0xAA, CHR 0xE3, CHR 0x80, CHR 0x8C,
      CHR 0xE5, CHR 0x85, CHR 0x88, CHR 0xE8, CHR 0xAA, CHR 0xAD, CHR 0xE3, CHR 0x81, CHR 0xBF,
      CHR 0xE3, CHR 0x80, CHR 0x8D, CHR 0xE3, CHR 0x82, CHR 0x92, CHR 0xE9, CHR 0x81, CHR 0xBF,
      CHR 0xE3, CHR 0x81, CHR 0x91, CHR 0xE3, CHR 0x81, CHR 0xA6, CHR 0xE3, CHR 0x81, CHR 0x8F,
      CHR 0xE3, CHR 0x81, CHR 0xA0, CHR 0xE3, CHR 0x81, CHR 0x95, CHR 0xE3, CHR 0x81, CHR 0x84,
      CHR 0x0A]"

definition sender_is_bot :: "string \<Rightarrow> bool" where
  "sender_is_bot sender_name =
     list_ex (\<lambda>bot_name. py_in (lower bot_name) (lower sender_name)) bot_names"

text \<open>
  \<open>_adjust_system_prompt_for_sender\<close>. The system prompt is \<open>None\<close> until the character
  settings are loaded; \<open>None += str\<close> raises \<open>TypeError\<close>.
\<close>

definition adjust_system_prompt_for_sender :: "bot \<Rightarrow> string \<Rightarrow> exn + string option" where
  "adjust_system_prompt_for_sender b sender_name =
     (if sender_is_bot sender_name then
        (case system_prompt b of
           None \<Rightarrow> Inl TypeError
         | Some p \<Rightarrow> Inr (Some (p @ bot_response_guidance)))
      else Inr (system_prompt b))"

subsection \<open>Response generation\<close>

text \<open>
  The awaited collaborators of \<open>respond_to_message\<close>, each returning or raising, and
  \<open>random.randint\<close>.
\<close>

record backend =
  delay_response :: "int \<Rightarrow> int \<Rightarrow> exn option"
  simulate_typing :: "int \<Rightarrow> int \<Rightarrow> exn option"
  generate_response :: "llm_request \<Rightarrow> pyval \<Rightarrow> exn + string"
  channel_send :: "int \<Rightarrow> string \<Rightarrow> exn option"
  rand_int :: "int \<Rightarrow> int \<Rightarrow> int"

text \<open>\<open>model.startswith("gpt")\<close>: a list has no such attribute.\<close>

definition model_is_gpt :: "pyval \<Rightarrow> exn + bool" where
  "model_is_gpt v = (case v of Str s \<Rightarrow> Inr (startswith s ''gpt'') | StrList xs \<Rightarrow> Inl AttributeError)"

definition model_of :: "bot \<Rightarrow> pyval" where
  "model_of b =
     (case character b of
        None \<Rightarrow> Str ''gpt-4''
      | Some d \<Rightarrow> (if d = [] then Str ''gpt-4'' else dict_get d ''model'' (Str ''gpt-4'')))"

text \<open>
  The \<open>try\<close> block of \<open>respond_to_message\<close>, run without another handler in between: the
  state and the effects when it ends, and the exception it ended with, if any.
\<close>

definition respond_try :: "backend \<Rightarrow> bot \<Rightarrow> message \<Rightarrow> bot \<times> effect list \<times> exn option" where
  "respond_try be b m =
     (let e1 = [DelayResponse (min_response_delay b) (max_response_delay b)] in
      case delay_response be (min_response_delay b) (max_response_delay b) of
        Some e \<Rightarrow> (b, e1, Some e)
      | None \<Rightarrow>
     (let model = model_of b in
      case adjust_system_prompt_for_sender b (msg_display_name m) of
        Inl e \<Rightarrow> (b, e1, Some e)
      | Inr adjusted \<Rightarrow>
     (case model_is_gpt model of
        Inl e \<Rightarrow> (b, e1, Some e)
      | Inr gpt \<Rightarrow>
     (let messages = (if gpt then format_for_openai (conversation_manager b) adjusted
                      else format_for_anthropic (conversation_manager b) adjusted);
          message_length = rand_int be 50 200;
          e2 = e1 @ [SimulateTyping (msg_channel_id m) message_length] in
      case simulate_typing be (msg_channel_id m) message_length of
        Some e \<Rightarrow> (b, e2, Some e)
      | None \<Rightarrow>
     (let e3 = e2 @ [GenerateResponse messages model] in
      case generate_response be messages model of
        Inl e \<Rightarrow> (b, e3, Some e)
      | Inr response \<Rightarrow>
     (let b1 = b\<lparr>conversation_manager :=
                   add_message (character_name b) response (Some (character_name b))
                     (conversation_manager b)\<rparr> in
      case channel_send be (msg_channel_id m) response of
        Some e \<Rightarrow> (b1, e3, Some e)
      | None \<Rightarrow> (b1, e3 @ [Send (msg_channel_id m) response], None)))))))"

text \<open>
  \<open>respond_to_message\<close>: the \<open>try\<close> block and its \<open>except Exception\<close> handler, which
  logs. The third component is the exception that leaves the coroutine.
\<close>

definition respond_to_message :: "backend \<Rightarrow> bot \<Rightarrow> message \<Rightarrow> bot \<times> effect list \<times> exn option"
  where
  "respond_to_message be b m =
     (case respond_try be b m of
        (b1, effs, None) \<Rightarrow> (b1, effs, None)
      | (b1, effs, Some e) \<Rightarrow> (b1, effs @ [Log ERROR (FailedToRespond e)], None))"

subsection \<open>Introduction\<close>

definition greeting_head :: string where
  "greeting_head =
     [CHR 0xE3, CHR 0x81, CHR 0x93, CHR 0xE3, CHR 0x82, CHR 0x93, CHR 0xE3, CHR 0x81, CHR 0xAB,
      CHR 0xE3, CHR 0x81, CHR 0xA1, CHR 0xE3, CHR 0x81, CHR 0xAF, CHR 0xEF, CHR 0xBC, CHR 0x81,
      CHR 0xE7, CHR 0xA7, CHR 0x81, CHR 0xE3, CHR 0x81, CHR 0xAF]"

definition greeting_tail :: string where
  "greeting_tail =
     [CHR 0xE3, CHR 0x81, CHR 0xA7, CHR 0xE3, CHR 0x81, CHR 0x99, CHR 0xE3, CHR 0x80, CHR 0x82]"

definition personality_label :: string where
  "personality_label =
     [CHR 0xE6, CHR 0x80, CHR 0xA7, CHR 0xE6, CHR 0xA0, CHR 0xBC, CHR 0x3A, CHR 0x20]"

definition speaking_style_label :: string where
  "speaking_style_label =
     [CHR 0xE8, CHR 0xA9, CHR 0xB1, CHR 0xE3, CHR 0x81, CHR 0x97, CHR 0xE6, CHR 0x96, CHR 0xB9,
      CHR 0x3A, CHR 0x20]"

definition interests_label :: string where
  "interests_label =
     [CHR 0xE8, CHR 0x88, CHR 0x88, CHR 0xE5, CHR 0x91, CHR 0xB3, CHR 0xE3, CHR 0x83, CHR 0xBB,
      CHR 0xE9, CHR 0x96, CHR 0xA2, CHR 0xE5, CHR 0xBF, CHR 0x83, CHR 0x3A, CHR 0x20]"

definition interests_sep :: string where
  "interests_sep =
     [CHR 0xE3, CHR 0x80, CHR 0x81]"

definition background_label :: string where
  "background_label =
     [CHR 0xE8, CHR 0x83, CHR 0x8C, CHR 0xE6, CHR 0x99, CHR 0xAF, CHR 0x3A, CHR 0x20]"

definition model_label :: string where
  "model_label =
     [CHR 0xE4, CHR 0xBD, CHR 0xBF, CHR 0xE7, CHR 0x94, CHR 0xA8, CHR 0xE3, CHR 0x83, CHR 0xA2,
      CHR 0xE3, CHR 0x83, CHR 0x87, CHR 0xE3, CHR 0x83, CHR 0xAB, CHR 0x3A, CHR 0x20]"

definition invitation :: string where
  "invitation =
     [CHR 0xE6, CHR 0xB0, CHR 0x97, CHR 0xE8, CHR 0xBB, CHR 0xBD, CHR 0xE3, CHR 0x81, CHR 0xAB,
      CHR 0xE8, CHR 0xA9, CHR 0xB1, CHR 0xE3, CHR 0x81, CHR 0x97, CHR 0xE3, CHR 0x81, CHR 0x8B,
      CHR 0xE3, CHR 0x81, CHR 0x91, CHR 0xE3, CHR 0x81, CHR 0xA6, CHR 0xE3, CHR 0x81, CHR 0x8F,
      CHR 0xE3, CHR 0x81, CHR 0xA0, CHR 0xE3, CHR 0x81, CHR 0x95, CHR 0xE3, CHR 0x81, CHR 0x84,
      CHR 0xEF, CHR 0xBC, CHR 0x81]"

text \<open>\<open>self.character and key in self.character\<close>.\<close>

definition has_field :: "bot \<Rightarrow> string \<Rightarrow> bool" where
  "has_field b k = (case character b of None \<Rightarrow> False | Some d \<Rightarrow> d \<noteq> [] \<and> dict_has k d)"

definition field :: "bot \<Rightarrow> string \<Rightarrow> pyval" where
  "field b k = (case character b of None \<Rightarrow> Str [] | Some d \<Rightarrow> dict_get d k (Str []))"

definition interests_str :: "pyval \<Rightarrow> string" where
  "interests_str v = (case v of StrList xs \<Rightarrow> py_join interests_sep xs | Str s \<Rightarrow> s)"


definition intro_parts :: "string option \<Rightarrow> bot \<Rightarrow> string list" where
  "intro_parts additional_info b =
     (let p0 = [greeting_head @ character_name b @ greeting_tail];
          p1 = (if has_field b ''personality''
                then p0 @ [personality_label @ py_str (field b ''personality'')] else p0);
          p2 = (if has_field b ''speaking_style''
                then p1 @ [speaking_style_label @ py_str (field b ''speaking_style'')] else p1);
          p3 = (if has_field b ''interests''
                then p2 @ [interests_label @ interests_str (field b ''interests'')] else p2);
          p4 = (if has_field b ''background''
                then p3 @ [background_label @ py_str (field b ''background'')] else p3);
          p5 = (if has_field b ''model''
                then p4 @ [model_label @ py_str (field b ''model'')] else p4);
          p6 = (case additional_info of
                  None \<Rightarrow> p5
                | Some info \<Rightarrow> (if info \<noteq> [] then p5 @ [info] else p5))
      in p6 @ [invitation])"

definition generate_introduction_message :: "string option \<Rightarrow> bot \<Rightarrow> string" where
  "generate_introduction_message additional_info b =
     py_join newline (intro_parts additional_info b)"

subsection \<open>Startup and scheduled messages\<close>

text \<open>
  The gateway: \<open>get_channel\<close> gives the channel's name or \<open>None\<close>, \<open>send\<close> returns or
  raises.
\<close>

record gateway =
  get_channel :: "int \<Rightarrow> string option"
  gw_send :: "int \<Rightarrow> string \<Rightarrow> exn option"

definition on_ready :: "notion_service \<Rightarrow> gateway \<Rightarrow> string option \<Rightarrow> bot
    \<Rightarrow> bot \<times> effect list \<times> exn option" where
  "on_ready ns gw additional_info b =
     (case load_character_settings ns b of
        (b1, effs, Some e) \<Rightarrow> (b1, Log INFO LoggedIn # effs, Some e)
      | (b1, effs, None) \<Rightarrow>
          (if channel_id b1 \<noteq> 0 then
             (case get_channel gw (channel_id b1) of
                Some cname \<Rightarrow>
                  (let intro_message = generate_introduction_message additional_info b1 in
                   case gw_send gw (channel_id b1) intro_message of
                     Some e \<Rightarrow> (b1, Log INFO LoggedIn # effs @ [Log INFO JoinedChannel], Some e)
                   | None \<Rightarrow>
                       (b1, Log INFO LoggedIn # effs @
                            [Log INFO JoinedChannel, Send (channel_id b1) intro_message,
                             Log INFO SentIntroduction], None))
              | None \<Rightarrow> (b1, Log INFO LoggedIn # effs @ [Log ERROR ChannelNotFound], None))
           else (b1, Log INFO LoggedIn # effs, None)))"

definition send_scheduled_message :: "gateway \<Rightarrow> bot \<Rightarrow> string \<Rightarrow> effect list \<times> exn option" where
  "send_scheduled_message gw b txt =
     (if channel_id b = 0 then ([Log ERROR NoChannelForScheduledMessage], None)
      else (case get_channel gw (channel_id b) of
              None \<Rightarrow> ([Log ERROR ChannelNotFound], None)
            | Some cname \<Rightarrow>
                (case gw_send gw (channel_id b) txt of
                   Some e \<Rightarrow> ([], Some e)
                 | None \<Rightarrow> ([Send (channel_id b) txt, Log INFO SentScheduledMessage], None))))"

section \<open>The event loop\<close>

text \<open>
  The handlers run one at a time on a cooperative scheduler. A state of the whole is the
  bot, the loop's clock, the wake-up times of the pending \<open>reset_cooldown_after\<close> tasks and
  the messages of the pending \<open>respond_to_message\<close> tasks. A sleeping task wakes when the
  clock reaches its wake-up time: the clock cannot pass a wake-up time while the task sleeps.
  A task starts at the clock reading of the handler that created it, and loop times are
  idealised as reals.
\<close>

record system =
  sys_bot :: bot
  sys_clock :: real
  sys_sleepers :: "real list"
  sys_responders :: "message list"

definition start :: "bot \<Rightarrow> string \<Rightarrow> real \<Rightarrow> system" where
  "start b u t0 =
     \<lparr>sys_bot = b\<lparr>user := Some u\<rparr>, sys_clock = t0, sys_sleepers = [], sys_responders = []\<rparr>"

fun spawned_sleepers :: "real \<Rightarrow> effect list \<Rightarrow> real list" where
  "spawned_sleepers now [] = []"
| "spawned_sleepers now (CreateTask (ResetCooldownAfter minutes) # es) =
     (now + of_int (minutes * 60)) # spawned_sleepers now es"
| "spawned_sleepers now (e # es) = spawned_sleepers now es"

fun spawned_responders :: "effect list \<Rightarrow> message list" where
  "spawned_responders [] = []"
| "spawned_responders (CreateTask (RespondToMessage m) # es) = m # spawned_responders es"
| "spawned_responders (e # es) = spawned_responders es"

definition remove_nth :: "nat \<Rightarrow> 'a list \<Rightarrow> 'a list" where
  "remove_nth i xs = take i xs @ drop (Suc i) xs"

datatype event =
    Deliver "message \<Rightarrow> bool" "int \<Rightarrow> int \<Rightarrow> int" message
  | Wake nat
  | Reply backend nat
  | Ready notion_service gateway "string option"
  | Advance real

text \<open>
  When an event can happen. \<open>random.randint(1, 3)\<close> returns a value from 1 to 3; a task
  wakes once its time has come; the clock advances up to the next wake-up time.
\<close>

fun enabled :: "event \<Rightarrow> system \<Rightarrow> bool" where
  "enabled (Deliver hook randint m) s = (1 \<le> randint 1 3 \<and> randint 1 3 \<le> 3)"
| "enabled (Wake i) s = (i < length (sys_sleepers s) \<and> sys_sleepers s ! i \<le> sys_clock s)"
| "enabled (Reply be i) s = (i < length (sys_responders s))"
| "enabled (Ready ns gw info) s = True"
| "enabled (Advance t) s = (sys_clock s \<le> t \<and> list_all (\<lambda>w. t \<le> w) (sys_sleepers s))"

fun apply_event :: "event \<Rightarrow> system \<Rightarrow> system" where
  "apply_event (Deliver hook randint m) s =
     (let (b, effs) = on_message hook randint (sys_clock s) (sys_bot s) m in
      s\<lparr>sys_bot := b,
        sys_sleepers := sys_sleepers s @ spawned_sleepers (sys_clock s) effs,
        sys_responders := sys_responders s @ spawned_responders effs\<rparr>)"
| "apply_event (Wake i) s =
     s\<lparr>sys_bot := fst (reset_cooldown_after_resume (sys_bot s)),
       sys_sleepers := remove_nth i (sys_sleepers s)\<rparr>"
| "apply_event (Reply be i) s =
     s\<lparr>sys_bot := fst (respond_to_message be (sys_bot s) (sys_responders s ! i)),
       sys_responders := remove_nth i (sys_responders s)\<rparr>"
| "apply_event (Ready ns gw info) s = s\<lparr>sys_bot := fst (on_ready ns gw info (sys_bot s))\<rparr>"
| "apply_event (Advance t) s = s\<lparr>sys_clock := t\<rparr>"

inductive reachable :: "system \<Rightarrow> bool" where
  initial: "init_bot environ file name prefix = Inr (b, effs) \<Longrightarrow> reachable (start b u t0)"
| step: "reachable s \<Longrightarrow> enabled ev s \<Longrightarrow> reachable (apply_event ev s)"

text \<open>Delivering a list of messages one after another.\<close>

fun deliver_all :: "(message \<Rightarrow> bool) \<Rightarrow> (int \<Rightarrow> int \<Rightarrow> int) \<Rightarrow> message list \<Rightarrow> system \<Rightarrow> system" where
  "deliver_all hook randint [] s = s"
| "deliver_all hook randint (m # ms) s =
     deliver_all hook randint ms (apply_event (Deliver hook randint m) s)"

section \<open>Sample inputs\<close>

text \<open>
  A process environment, the bot that \<open>__init__\<close> builds from it, and a few messages,
  for the concrete instances below.
\<close>

definition example_environ :: "string \<Rightarrow> string option" where
  "example_environ = [''CHANNEL_ID'' \<mapsto> ''42'', ''MAX_CONVERSATION_TURNS'' \<mapsto> ''2'']"

definition fresh_bot :: bot where
  "fresh_bot =
     \<lparr>user = None,
      notion_character_name = ''Tama'',
      character_name = ''Tama'',
      command_prefix = ''!'',
      channel_id = 42,
      min_response_delay = 5,
      max_response_delay = 15,
      max_conversation_turns = 2,
      base_role = ''Stay in character.'',
      conversation_manager = new_conversation_manager,
      character = None,
      system_prompt = None,
      in_cooldown = False,
      cooldown_until = 0\<rparr>"

definition example_bot :: bot where
  "example_bot = fresh_bot\<lparr>user := Some ''zoo-bot''\<rparr>"

definition busy_bot :: bot where
  "busy_bot =
     example_bot\<lparr>conversation_manager := add_message ''Bob'' ''hi'' None new_conversation_manager\<rparr>"

definition cooling_bot :: bot where
  "cooling_bot = example_bot\<lparr>in_cooldown := True, cooldown_until := 120\<rparr>"

definition hello :: message where
  "hello = \<lparr>msg_author = ''alice#1'', msg_display_name = ''Alice'', msg_content = ''hello'',
            msg_channel_id = 42\<rparr>"

definition help_command :: message where
  "help_command = \<lparr>msg_author = ''alice#1'', msg_display_name = ''Alice'',
                   msg_content = ''!help'', msg_channel_id = 42\<rparr>"

definition elsewhere :: message where
  "elsewhere = \<lparr>msg_author = ''alice#1'', msg_display_name = ''Alice'', msg_content = ''hello'',
                msg_channel_id = 7\<rparr>"

text \<open>Two outcomes of \<open>random.randint\<close>: the lower bound and the upper bound.\<close>

definition lowest :: "int \<Rightarrow> int \<Rightarrow> int" where
  "lowest a b = a"

definition highest :: "int \<Rightarrow> int \<Rightarrow> int" where
  "highest a b = b"

text \<open>The tasks a handler created, in order.\<close>

fun created_tasks :: "effect list \<Rightarrow> task list" where
  "created_tasks [] = []"
| "created_tasks (CreateTask t # es) = t # created_tasks es"
| "created_tasks (e # es) = created_tasks es"

text \<open>The messages a handler sent to a channel, and how often it called the backend.\<close>

fun sent_messages :: "effect list \<Rightarrow> (int \<times> string) list" where
  "sent_messages [] = []"
| "sent_messages (Send c t # es) = (c, t) # sent_messages es"
| "sent_messages (e # es) = sent_messages es"

fun llm_calls :: "effect list \<Rightarrow> nat" where
  "llm_calls [] = 0"
| "llm_calls (GenerateResponse req model # es) = Suc (llm_calls es)"
| "llm_calls (e # es) = llm_calls es"

text \<open>A bot with its settings loaded and three human utterances stored.\<close>

definition chatting_bot :: bot where
  "chatting_bot =
     example_bot\<lparr>character := Some (default_character ''Tama''),
                 system_prompt := Some ''You are Tama.'',
                 max_conversation_turns := 10,
                 conversation_manager :=
                   add_message ''Alice'' ''hello'' None
                     (add_message ''Bob'' ''hi'' None
                        (add_message ''Alice'' ''anyone here?'' None new_conversation_manager))\<rparr>"

text \<open>A backend whose model call raises, and one that answers.\<close>

definition failing_backend :: backend where
  "failing_backend =
     \<lparr>delay_response = (\<lambda>lo hi. None),
      simulate_typing = (\<lambda>c n. None),
      generate_response = (\<lambda>req model. Inl (OtherError ''timeout'')),
      channel_send = (\<lambda>c t. None),
      rand_int = lowest\<rparr>"

definition working_backend :: backend where
  "working_backend = failing_backend\<lparr>generate_response := (\<lambda>req model. Inr ''Meow.'')\<rparr>"

text \<open>
  Persona services with the formatter of the spec: one that finds nothing, one whose lookup
  raises, one that finds a persona; and a service whose formatter returns an empty prompt.
\<close>

definition sample_render :: "character \<Rightarrow> string" where
  "sample_render c = '' Persona: '' @ py_str (dict_get c ''name'' (Str []))"

definition empty_notion :: notion_service where
  "empty_notion = spec_notion (\<lambda>n. Inr None) sample_render"

definition broken_notion :: notion_service where
  "broken_notion = spec_notion (\<lambda>n. Inl (OtherError ''unreachable'')) sample_render"

definition found_character :: character where
  "found_character = [(''name'', Str ''Tama the cat''), (''model'', Str ''claude-3'')]"

definition found_notion :: notion_service where
  "found_notion = spec_notion (\<lambda>n. Inr (Some found_character)) sample_render"

text \<open>
  The sender names a marker of \<open>bot_names\<close> when its lowered name has the lowered marker
  as a contiguous part.
\<close>

definition names_marker :: "string \<Rightarrow> bool" where
  "names_marker sender_name =
     (\<exists>marker \<in> set bot_names. \<exists>pre suf. lower sender_name = pre @ lower marker @ suf)"








text \<open>An environment without \<open>CHANNEL_ID\<close>, and the bot \<open>__init__\<close> builds from it.\<close>

definition bare_environ :: "string \<Rightarrow> string option" where
  "bare_environ = Map.empty"

definition open_bot :: bot where
  "open_bot = fresh_bot\<lparr>channel_id := 0, max_conversation_turns := 10\<rparr>"

text \<open>
  The link between the flag and the pending timers: while the bot cools down, exactly one
  \<open>reset_cooldown_after\<close> task sleeps, until \<open>cooldown_until\<close>, which the clock has not
  passed; otherwise none sleeps.
\<close>

definition cooldown_inv :: "system \<Rightarrow> bool" where
  "cooldown_inv s =
     (if in_cooldown (sys_bot s)
      then sys_sleepers s = [cooldown_until (sys_bot s)] \<and>
           sys_clock s \<le> cooldown_until (sys_bot s)
      else sys_sleepers s = [])"

definition listening_bot :: bot where
  "listening_bot = open_bot\<lparr>user := Some ''zoo-bot''\<rparr>"

text \<open>
  The bot of \<open>fresh_bot\<close>, started at time 0, after two messages: the second one reaches
  the limit of two turns.
\<close>

definition cooling_system :: system where
  "cooling_system =
     deliver_all should_respond_to_message lowest [hello, hello] (start fresh_bot ''zoo-bot'' 0)"

section \<open>The message handler: cooldown and commands\<close>

text \<open>
  Claim C1, as the code has it: while the bot is cooling down, \<open>on_message\<close> returns before
  \<open>add_message\<close>. No task is created, whatever the eligibility hook says, and the whole
  state of the bot, the conversation store included, stays as it was: the message is not
  recorded.
\<close>

theorem on_message_in_cooldown:
  "in_cooldown b \<Longrightarrow>
     fst (on_message hook randint now b m) = b \<and>
     created_tasks (snd (on_message hook randint now b m)) = []"
  by (simp add: on_message_def)

theorem on_message_in_cooldown_witness:
  "in_cooldown cooling_bot \<and>
   fst (on_message should_respond_to_message lowest 0 cooling_bot hello) = cooling_bot \<and>
   created_tasks (snd (on_message should_respond_to_message lowest 0 cooling_bot hello)) = []"
  using on_message_in_cooldown [of cooling_bot should_respond_to_message lowest 0 hello]
  by (simp add: cooling_bot_def example_bot_def fresh_bot_def)

text \<open>
  Against claim C1 as stated: a message from another user, in the configured channel, not
  a command, arrives during a cooldown; the store holds nothing afterwards, and is not what
  \<open>add_message\<close> would have made it.
\<close>

theorem cooldown_message_not_recorded:
  "in_cooldown cooling_bot \<and>
   Some (msg_author hello) \<noteq> user cooling_bot \<and>
   msg_channel_id hello = channel_id cooling_bot \<and>
   \<not> startswith (msg_content hello) (command_prefix cooling_bot) \<and>
   history (conversation_manager
     (fst (on_message should_respond_to_message lowest 0 cooling_bot hello))) = [] \<and>
   conversation_manager (fst (on_message should_respond_to_message lowest 0 cooling_bot hello))
     \<noteq> add_message (msg_display_name hello) (msg_content hello) None
          (conversation_manager cooling_bot)"
  by (simp add: on_message_def cooling_bot_def example_bot_def fresh_bot_def hello_def
      new_conversation_manager_def add_message_def)

text \<open>
  Claim C2: a message from another user, in the channel (or with no channel configured),
  not a command, handled while the bot is not cooling down, that brings the turn count to
  the limit: the bot enters the cooldown, the turn counter is zero afterwards and the
  utterance is kept, exactly one task is created and it is the deferred reactivation, for
  the number of minutes \<open>random.randint(1, 3)\<close> returned (1, 2 or 3), and no response task
  is created.
\<close>

theorem enter_cooldown:
  assumes "Some (msg_author m) \<noteq> user b"
    and "channel_id b = 0 \<or> msg_channel_id m = channel_id b"
    and "\<not> startswith (msg_content m) (command_prefix b)"
    and "\<not> in_cooldown b"
    and "should_cool_down
           (add_message (msg_display_name m) (msg_content m) None (conversation_manager b))
           (max_conversation_turns b)"
    and "1 \<le> randint 1 3" and "randint 1 3 \<le> 3"
  shows "in_cooldown (fst (on_message hook randint now b m)) \<and>
         turns (conversation_manager (fst (on_message hook randint now b m))) = 0 \<and>
         history (conversation_manager (fst (on_message hook randint now b m))) =
           history (conversation_manager b) @
             [\<lparr>utt_author = msg_display_name m, utt_content = msg_content m,
               is_bot_reply = False\<rparr>] \<and>
         created_tasks (snd (on_message hook randint now b m)) =
           [ResetCooldownAfter (randint 1 3)] \<and>
         randint 1 3 \<in> {1, 2, 3} \<and>
         cooldown_until (fst (on_message hook randint now b m)) =
           now + 60 * of_int (randint 1 3)"
proof -
  have r: "randint 1 3 \<in> {1, 2, 3}"
    using assms(6,7) by auto
  show ?thesis
    using assms(1-5) r
    by (auto simp add: on_message_def Let_def reset_conversation_turns_def add_message_def)
qed

theorem enter_cooldown_witness:
  "in_cooldown (fst (on_message should_respond_to_message highest 10 busy_bot hello)) \<and>
   turns (conversation_manager
     (fst (on_message should_respond_to_message highest 10 busy_bot hello))) = 0 \<and>
   created_tasks (snd (on_message should_respond_to_message highest 10 busy_bot hello)) =
     [ResetCooldownAfter 3] \<and>
   cooldown_until (fst (on_message should_respond_to_message highest 10 busy_bot hello)) = 190"
  using enter_cooldown [of hello busy_bot highest should_respond_to_message 10]
  by (simp add: busy_bot_def example_bot_def fresh_bot_def hello_def highest_def
      should_cool_down_def add_message_def new_conversation_manager_def)

text \<open>
  Claim C5, as the code has it: a message whose content starts with the command prefix
  creates no task, so no response is generated for it, and \<open>on_message\<close> returns before
  \<open>add_message\<close>: the state of the bot, the conversation store included, stays as it was.
\<close>

theorem command_not_recorded_no_reply:
  "startswith (msg_content m) (command_prefix b) \<Longrightarrow>
     fst (on_message hook randint now b m) = b \<and>
     created_tasks (snd (on_message hook randint now b m)) = []"
  by (simp add: on_message_def)

theorem command_not_recorded_no_reply_witness:
  "startswith (msg_content help_command) (command_prefix example_bot) \<and>
   fst (on_message should_respond_to_message lowest 0 example_bot help_command) = example_bot \<and>
   created_tasks
     (snd (on_message should_respond_to_message lowest 0 example_bot help_command)) = []"
  using command_not_recorded_no_reply
    [of help_command example_bot should_respond_to_message lowest 0]
  by (simp add: help_command_def example_bot_def fresh_bot_def)

text \<open>
  Against claim C5 as stated: the command \<open>!help\<close> from another user, in the configured
  channel, while the bot is active, is not appended to the store.
\<close>

theorem command_message_not_appended:
  "startswith (msg_content help_command) (command_prefix example_bot) \<and>
   Some (msg_author help_command) \<noteq> user example_bot \<and>
   msg_channel_id help_command = channel_id example_bot \<and>
   \<not> in_cooldown example_bot \<and>
   history (conversation_manager
     (fst (on_message should_respond_to_message lowest 0 example_bot help_command))) = [] \<and>
   conversation_manager
     (fst (on_message should_respond_to_message lowest 0 example_bot help_command))
     \<noteq> add_message (msg_display_name help_command) (msg_content help_command) None
          (conversation_manager example_bot)"
  by (simp add: on_message_def example_bot_def fresh_bot_def help_command_def
      new_conversation_manager_def add_message_def)

section \<open>Response generation and persona\<close>

lemma alice_is_no_bot: "sender_is_bot ''Alice'' = False"
  by code_simp

lemma claude_is_bot: "sender_is_bot ''Claude-Animal-42'' = True"
  by code_simp

lemma chatting_fields:
  "min_response_delay chatting_bot = 5" "max_response_delay chatting_bot = 15"
  "system_prompt chatting_bot = Some ''You are Tama.''"
  "character_name chatting_bot = ''Tama''"
  by (simp_all add: chatting_bot_def example_bot_def fresh_bot_def)

lemma startswith_iff: "startswith s p \<longleftrightarrow> (\<exists>suf. s = p @ suf)"
  by (induction s p rule: startswith.induct) auto

lemma py_in_iff: "py_in sub s \<longleftrightarrow> (\<exists>pre suf. s = pre @ sub @ suf)"
proof (induction s)
  case Nil
  then show ?case by auto
next
  case (Cons c cs)
  show ?case
  proof
    assume "py_in sub (c # cs)"
    then consider "startswith (c # cs) sub" | "py_in sub cs" by auto
    then show "\<exists>pre suf. c # cs = pre @ sub @ suf"
    proof cases
      case 1
      then obtain suf where "c # cs = sub @ suf" by (auto simp: startswith_iff)
      then have "c # cs = [] @ sub @ suf" by simp
      then show ?thesis by blast
    next
      case 2
      then obtain pre suf where "cs = pre @ sub @ suf" using Cons.IH by blast
      then have "c # cs = (c # pre) @ sub @ suf" by simp
      then show ?thesis by blast
    qed
  next
    assume "\<exists>pre suf. c # cs = pre @ sub @ suf"
    then obtain pre suf where eq: "c # cs = pre @ sub @ suf" by blast
    show "py_in sub (c # cs)"
    proof (cases pre)
      case Nil
      with eq have "startswith (c # cs) sub" by (auto simp: startswith_iff)
      then show ?thesis by simp
    next
      case (Cons d ds)
      with eq have "cs = ds @ sub @ suf" by simp
      then have "py_in sub cs" using Cons.IH by blast
      then show ?thesis by simp
    qed
  qed
qed

lemma sender_is_bot_iff: "sender_is_bot s \<longleftrightarrow> names_marker s"
  by (simp add: sender_is_bot_def names_marker_def list_ex_iff py_in_iff)

lemma guidance_nonempty: "bot_response_guidance \<noteq> []"
  by (simp add: bot_response_guidance_def)

lemma fallback_prompt_nonempty: "fallback_prompt b \<noteq> []"
  by (simp add: fallback_prompt_def)

lemma default_character_nonempty: "default_character n \<noteq> []"
  by (simp add: default_character_def)

lemma sent_messages_append: "sent_messages (xs @ ys) = sent_messages xs @ sent_messages ys"
  by (induction xs rule: sent_messages.induct) simp_all

lemma llm_calls_append: "llm_calls (xs @ ys) = llm_calls xs + llm_calls ys"
  by (induction xs rule: llm_calls.induct) simp_all

lemma respond_try_failing:
  assumes "\<And>req model r. generate_response be req model \<noteq> Inr r"
  shows "\<exists>effs e. respond_try be b m = (b, effs, Some e) \<and> sent_messages effs = [] \<and>
           llm_calls effs \<le> 1"
  using assms
  by (simp add: respond_try_def Let_def sent_messages_append llm_calls_append
      split: option.split sum.split)

lemma chatting_model: "model_of chatting_bot = Str ''gpt-4''"
  by code_simp

lemma chatting_history: "length (history (conversation_manager chatting_bot)) = 3"
  by (simp add: chatting_bot_def add_message_def new_conversation_manager_def)

lemma respond_try_example:
  "respond_try failing_backend chatting_bot hello =
     (chatting_bot,
      [DelayResponse 5 15, SimulateTyping 42 50,
       GenerateResponse
         (format_for_openai (conversation_manager chatting_bot) (Some ''You are Tama.''))
         (Str ''gpt-4'')],
      Some (OtherError ''timeout''))"
  unfolding respond_try_def chatting_model
  by (simp add: failing_backend_def adjust_system_prompt_for_sender_def alice_is_no_bot
      model_is_gpt_def lowest_def hello_def chatting_fields)

text \<open>
  Claim C3: when the call of the model raises, \<open>respond_to_message\<close> leaves the bot, and so
  the conversation store, as it was, sends nothing to the channel, ends by logging the
  failure, calls the model at most once, and lets no exception out.
\<close>

theorem failed_generation_drops_turn:
  assumes "\<And>req model. \<exists>e. generate_response be req model = Inl e"
  shows "fst (respond_to_message be b m) = b \<and>
         sent_messages (fst (snd (respond_to_message be b m))) = [] \<and>
         snd (snd (respond_to_message be b m)) = None \<and>
         (\<exists>e. last (fst (snd (respond_to_message be b m))) = Log ERROR (FailedToRespond e)) \<and>
         llm_calls (fst (snd (respond_to_message be b m))) \<le> 1"
proof -
  have no: "generate_response be req model \<noteq> Inr r" for req model r
    using assms [of req model] by auto
  from respond_try_failing [OF no]
  obtain effs e where "respond_try be b m = (b, effs, Some e)" "sent_messages effs = []"
    "llm_calls effs \<le> 1"
    by blast
  then show ?thesis
    by (simp add: respond_to_message_def sent_messages_append llm_calls_append)
qed

text \<open>
  The scenario of the spec: three human utterances are stored and the generation fails.
\<close>

theorem failed_generation_drops_turn_witness:
  "fst (respond_to_message failing_backend chatting_bot hello) = chatting_bot \<and>
   length (history (conversation_manager
     (fst (respond_to_message failing_backend chatting_bot hello)))) = 3 \<and>
   sent_messages (fst (snd (respond_to_message failing_backend chatting_bot hello))) = [] \<and>
   snd (snd (respond_to_message failing_backend chatting_bot hello)) = None \<and>
   last (fst (snd (respond_to_message failing_backend chatting_bot hello))) =
     Log ERROR (FailedToRespond (OtherError ''timeout'')) \<and>
   llm_calls (fst (snd (respond_to_message failing_backend chatting_bot hello))) = 1"
proof -
  have gen: "\<exists>e. generate_response failing_backend req model = Inl e" for req model
    by (simp add: failing_backend_def)
  have run: "respond_to_message failing_backend chatting_bot hello =
     (chatting_bot,
      [DelayResponse 5 15, SimulateTyping 42 50,
       GenerateResponse
         (format_for_openai (conversation_manager chatting_bot) (Some ''You are Tama.''))
         (Str ''gpt-4''),
       Log ERROR (FailedToRespond (OtherError ''timeout''))],
      None)"
    by (simp add: respond_to_message_def respond_try_example)
  from failed_generation_drops_turn [of failing_backend chatting_bot hello, OF gen]
  show ?thesis
    by (simp add: run chatting_history)
qed

text \<open>
  Claim C6: for a bot whose system prompt is loaded, \<open>_adjust_system_prompt_for_sender\<close>
  returns the prompt with the fixed block \<open>bot_response_guidance\<close> appended exactly when
  the lowered sender name contains a lowered marker of \<open>bot_names\<close>, and the prompt
  unchanged otherwise; the block is not empty; the sender \<open>Claude-Animal-42\<close> gets the
  block and the sender \<open>Alice\<close> does not.
\<close>

theorem adjust_for_sender:
  assumes "system_prompt b = Some p"
  shows "(adjust_system_prompt_for_sender b s = Inr (Some (p @ bot_response_guidance))
            \<longleftrightarrow> names_marker s) \<and>
         (\<not> names_marker s \<longrightarrow> adjust_system_prompt_for_sender b s = Inr (Some p)) \<and>
         bot_response_guidance \<noteq> [] \<and>
         adjust_system_prompt_for_sender b ''Claude-Animal-42'' =
           Inr (Some (p @ bot_response_guidance)) \<and>
         adjust_system_prompt_for_sender b ''Alice'' = Inr (Some p)"
  using assms guidance_nonempty
  by (simp add: adjust_system_prompt_for_sender_def sender_is_bot_iff [symmetric]
      alice_is_no_bot claude_is_bot)

theorem adjust_for_sender_witness:
  "system_prompt chatting_bot = Some ''You are Tama.'' \<and>
   adjust_system_prompt_for_sender chatting_bot ''Claude-Animal-42'' =
     Inr (Some (''You are Tama.'' @ bot_response_guidance)) \<and>
   adjust_system_prompt_for_sender chatting_bot ''Alice'' = Inr (Some ''You are Tama.'') \<and>
   names_marker ''Claude-Animal-42'' \<and> \<not> names_marker ''Alice''"
  using adjust_for_sender [of chatting_bot "''You are Tama.''" "''Claude-Animal-42''"]
    adjust_for_sender [of chatting_bot "''You are Tama.''" "''Alice''"]
  by (simp add: chatting_fields sender_is_bot_iff [symmetric] alice_is_no_bot claude_is_bot
      del: append.simps)

lemma build_system_prompt_nonempty: "build_system_prompt render c base \<noteq> []"
  by (simp add: build_system_prompt_def)

lemma default_character_fields:
  "map_of (default_character n) ''personality'' = Some (Str ''Friendly and helpful'')"
  "map_of (default_character n) ''speaking_style'' = Some (Str ''Casual and conversational'')"
  "map_of (default_character n) ''language'' = Some (Str ''English'')"
  "map_of (default_character n) ''model'' = Some (Str ''gpt-4'')"
  by (simp_all add: default_character_def)

lemma load_lookup_raises:
  assumes "get_character ns (notion_character_name b) = Inl e"
  shows "load_character_settings ns b =
           (b\<lparr>character := Some (default_character (notion_character_name b)),
              system_prompt := Some (fallback_prompt b)\<rparr>,
            [Log INFO LookingUpCharacter, Log ERROR (FailedToLoadCharacter e)], None)"
  using assms by (simp add: load_character_settings_def load_try_def fallback_prompt_def)

lemma load_found:
  assumes "get_character ns (notion_character_name b) = Inr (Some d)" and "d \<noteq> []"
  shows "load_character_settings ns b =
           (case format_character_prompt ns d (base_role b) of
              Inr p \<Rightarrow>
                (b\<lparr>character := Some d, system_prompt := Some p\<rparr>,
                 [Log INFO LookingUpCharacter, Log INFO CharacterLoaded], None)
            | Inl e \<Rightarrow>
                (b\<lparr>character := Some (default_character (notion_character_name b)),
                   system_prompt := Some (fallback_prompt b)\<rparr>,
                 [Log INFO LookingUpCharacter, Log ERROR (FailedToLoadCharacter e)], None))"
  using assms
  by (simp add: load_character_settings_def load_try_def fallback_prompt_def Let_def
      split: sum.split)

lemma load_absent:
  assumes "get_character ns (notion_character_name b) = Inr None \<or>
           get_character ns (notion_character_name b) = Inr (Some [])"
  shows "load_character_settings ns b =
           (case format_character_prompt ns (default_character (notion_character_name b))
                   (base_role b) of
              Inr p \<Rightarrow>
                (b\<lparr>character := Some (default_character (notion_character_name b)),
                   system_prompt := Some p\<rparr>,
                 [Log INFO LookingUpCharacter, Log WARNING CharacterNotFoundUsingDefault,
                  Log INFO CharacterLoaded], None)
            | Inl e \<Rightarrow>
                (b\<lparr>character := Some (default_character (notion_character_name b)),
                   system_prompt := Some (fallback_prompt b)\<rparr>,
                 [Log INFO LookingUpCharacter, Log WARNING CharacterNotFoundUsingDefault,
                  Log ERROR (FailedToLoadCharacter e)], None))"
  using assms
  by (auto simp add: load_character_settings_def load_try_def fallback_prompt_def Let_def
      split: sum.split)

lemma example_fields:
  "notion_character_name example_bot = ''Tama''" "base_role example_bot = ''Stay in character.''"
  by (simp_all add: example_bot_def fresh_bot_def)

text \<open>
  Claim C7: \<open>load_character_settings\<close> lets no exception out, whatever the lookup and the
  formatter of the persona service do, and leaves a non-empty character dictionary and a
  system prompt. A persona that the lookup finds is kept as it is and the prompt is what the
  formatter returns for it, with nothing logged but the two information lines. When the
  lookup finds nothing (\<open>None\<close> or an empty dictionary) or raises, the character is the
  fixed default (friendly, casual, English, \<open>gpt-4\<close>) and the substitution is logged, as
  a warning or as an error. Whenever the error is logged, the prompt is the fallback prompt,
  which is never empty. The prompt is empty only if the formatter returned an empty text,
  and with the formatter of the spec, \<open>build_system_prompt\<close>, it never is.
\<close>

theorem load_character_settings_total:
  "snd (snd (load_character_settings ns b)) = None \<and>
   (\<exists>c. character (fst (load_character_settings ns b)) = Some c \<and> c \<noteq> []) \<and>
   (\<forall>d p. get_character ns (notion_character_name b) = Inr (Some d) \<longrightarrow> d \<noteq> [] \<longrightarrow>
      format_character_prompt ns d (base_role b) = Inr p \<longrightarrow>
        load_character_settings ns b =
          (b\<lparr>character := Some d, system_prompt := Some p\<rparr>,
           [Log INFO LookingUpCharacter, Log INFO CharacterLoaded], None)) \<and>
   (\<forall>p. (get_character ns (notion_character_name b) = Inr None \<or>
         get_character ns (notion_character_name b) = Inr (Some [])) \<longrightarrow>
      format_character_prompt ns (default_character (notion_character_name b)) (base_role b)
        = Inr p \<longrightarrow>
        load_character_settings ns b =
          (b\<lparr>character := Some (default_character (notion_character_name b)),
             system_prompt := Some p\<rparr>,
           [Log INFO LookingUpCharacter, Log WARNING CharacterNotFoundUsingDefault,
            Log INFO CharacterLoaded], None)) \<and>
   ((get_character ns (notion_character_name b) = Inr None \<or>
     get_character ns (notion_character_name b) = Inr (Some []) \<or>
     (\<exists>e. get_character ns (notion_character_name b) = Inl e)) \<longrightarrow>
      character (fst (load_character_settings ns b)) =
        Some (default_character (notion_character_name b)) \<and>
      (Log WARNING CharacterNotFoundUsingDefault
         \<in> set (fst (snd (load_character_settings ns b))) \<or>
       (\<exists>e. Log ERROR (FailedToLoadCharacter e)
         \<in> set (fst (snd (load_character_settings ns b)))))) \<and>
   (\<forall>e. Log ERROR (FailedToLoadCharacter e) \<in> set (fst (snd (load_character_settings ns b)))
      \<longrightarrow>
        character (fst (load_character_settings ns b)) =
          Some (default_character (notion_character_name b)) \<and>
        system_prompt (fst (load_character_settings ns b)) = Some (fallback_prompt b)) \<and>
   fallback_prompt b \<noteq> [] \<and>
   (\<exists>p. system_prompt (fst (load_character_settings ns b)) = Some p \<and>
        (p = [] \<longrightarrow> (\<exists>c. format_character_prompt ns c (base_role b) = Inr []))) \<and>
   ((\<exists>render. format_character_prompt ns =
        (\<lambda>c base. Inr (build_system_prompt render c base))) \<longrightarrow>
      (\<exists>p. system_prompt (fst (load_character_settings ns b)) = Some p \<and> p \<noteq> [])) \<and>
   map_of (default_character (notion_character_name b)) ''personality'' =
     Some (Str ''Friendly and helpful'') \<and>
   map_of (default_character (notion_character_name b)) ''speaking_style'' =
     Some (Str ''Casual and conversational'') \<and>
   map_of (default_character (notion_character_name b)) ''language'' = Some (Str ''English'') \<and>
   map_of (default_character (notion_character_name b)) ''model'' = Some (Str ''gpt-4'')"
proof -
  let ?n = "notion_character_name b"
  let ?L = "load_character_settings ns b"
  have spec: "p \<noteq> []"
    if "format_character_prompt ns = (\<lambda>c base. Inr (build_system_prompt render c base))"
      and "format_character_prompt ns c base = Inr p" for render c base p
    using that build_system_prompt_nonempty [of render c base] by auto
  consider (raises) e where "get_character ns ?n = Inl e"
    | (absent) "get_character ns ?n = Inr None \<or> get_character ns ?n = Inr (Some [])"
    | (found) d where "get_character ns ?n = Inr (Some d)" "d \<noteq> []"
    by (cases "get_character ns ?n") (auto, metis option.exhaust)
  then show ?thesis
  proof cases
    case raises
    show ?thesis
      using raises
      by (simp add: load_lookup_raises [OF raises] fallback_prompt_nonempty
          default_character_nonempty default_character_fields)
  next
    case absent
    let ?dc = "default_character ?n"
    show ?thesis
    proof (cases "format_character_prompt ns ?dc (base_role b)")
      case (Inl e)
      with absent show ?thesis
        by (auto simp add: load_absent [OF absent] fallback_prompt_nonempty
            default_character_nonempty default_character_fields)
    next
      case (Inr p)
      have "p \<noteq> []"
        if "format_character_prompt ns = (\<lambda>c base. Inr (build_system_prompt render c base))"
        for render
        using spec [OF that Inr] .
      with absent Inr show ?thesis
        by (auto simp add: load_absent [OF absent] fallback_prompt_nonempty
            default_character_nonempty default_character_fields)
    qed
  next
    case found
    show ?thesis
    proof (cases "format_character_prompt ns d (base_role b)")
      case (Inl e)
      with found show ?thesis
        by (auto simp add: load_found [OF found] fallback_prompt_nonempty
            default_character_nonempty default_character_fields)
    next
      case (Inr p)
      have "p \<noteq> []"
        if "format_character_prompt ns = (\<lambda>c base. Inr (build_system_prompt render c base))"
        for render
        using spec [OF that Inr] .
      with found Inr show ?thesis
        by (auto simp add: load_found [OF found] fallback_prompt_nonempty
            default_character_fields)
    qed
  qed
qed

text \<open>
  The scenarios of the spec: the lookup returns nothing, the lookup finds a persona, the
  lookup raises.
\<close>

theorem load_character_settings_total_witness:
  "load_character_settings empty_notion example_bot =
     (example_bot\<lparr>character := Some (default_character ''Tama''),
                  system_prompt := Some ''Stay in character. Persona: Tama''\<rparr>,
      [Log INFO LookingUpCharacter, Log WARNING CharacterNotFoundUsingDefault,
       Log INFO CharacterLoaded],
      None) \<and>
   load_character_settings found_notion example_bot =
     (example_bot\<lparr>character := Some found_character,
                  system_prompt := Some ''Stay in character. Persona: Tama the cat''\<rparr>,
      [Log INFO LookingUpCharacter, Log INFO CharacterLoaded],
      None) \<and>
   character (fst (load_character_settings broken_notion example_bot)) =
     Some (default_character ''Tama'') \<and>
   system_prompt (fst (load_character_settings broken_notion example_bot)) =
     Some (fallback_prompt example_bot) \<and>
   Log ERROR (FailedToLoadCharacter (OtherError ''unreachable''))
     \<in> set (fst (snd (load_character_settings broken_notion example_bot))) \<and>
   format_character_prompt empty_notion =
     (\<lambda>c base. Inr (build_system_prompt sample_render c base)) \<and>
   (\<exists>p. system_prompt (fst (load_character_settings empty_notion example_bot)) = Some p \<and>
        p \<noteq> [])"
proof -
  have sp: "format_character_prompt empty_notion =
      (\<lambda>c base. Inr (build_system_prompt sample_render c base))"
    by (simp add: empty_notion_def spec_notion_def)
  then have sp': "\<exists>render. format_character_prompt empty_notion =
      (\<lambda>c base. Inr (build_system_prompt render c base))"
    by (rule exI [where x = sample_render])
  note ne = load_character_settings_total [of empty_notion example_bot, THEN conjunct2,
      THEN conjunct2, THEN conjunct2, THEN conjunct2, THEN conjunct2, THEN conjunct2,
      THEN conjunct2, THEN conjunct2, THEN conjunct1, rule_format, OF sp']
  have e: "get_character empty_notion (notion_character_name example_bot) = Inr None"
    "format_character_prompt empty_notion (default_character (notion_character_name example_bot))
       (base_role example_bot) = Inr ''Stay in character. Persona: Tama''"
    by (simp_all add: empty_notion_def spec_notion_def build_system_prompt_def sample_render_def
        example_fields default_character_def dict_get_def)
  have f: "get_character found_notion (notion_character_name example_bot) = Inr (Some found_character)"
    "found_character \<noteq> []"
    "format_character_prompt found_notion found_character (base_role example_bot) =
       Inr ''Stay in character. Persona: Tama the cat''"
    by (simp_all add: found_notion_def spec_notion_def build_system_prompt_def sample_render_def
        example_fields found_character_def dict_get_def)
  have r: "get_character broken_notion (notion_character_name example_bot) =
      Inl (OtherError ''unreachable'')"
    by (simp add: broken_notion_def spec_notion_def)
  have r': "Log ERROR (FailedToLoadCharacter (OtherError ''unreachable''))
     \<in> set (fst (snd (load_character_settings broken_notion example_bot)))"
    by (simp add: load_lookup_raises [OF r])
  note abs = load_character_settings_total [of empty_notion example_bot, THEN conjunct2,
      THEN conjunct2, THEN conjunct2, THEN conjunct1, rule_format, OF disjI1 [OF e(1)] e(2)]
  note fnd = load_character_settings_total [of found_notion example_bot, THEN conjunct2,
      THEN conjunct2, THEN conjunct1, rule_format, OF f(1) f(2) f(3)]
  note err = load_character_settings_total [of broken_notion example_bot, THEN conjunct2,
      THEN conjunct2, THEN conjunct2, THEN conjunct2, THEN conjunct2, THEN conjunct1,
      rule_format, OF r']
  show ?thesis
    using abs fnd err r' sp ne by (simp only: example_fields simp_thms)
qed

section \<open>The introduction message\<close>

lemma py_split_lines_nonempty: "py_split_lines s \<noteq> []"
  by (induction s) (auto split: list.splits)

























section \<open>The channel filter\<close>

lemma py_int_zero: "py_int ''0'' = Inr 0"
  by (simp add: py_int_def strip_def is_space_def digit_val_def)

lemma init_example:
  "init_bot example_environ (Inr '' Stay in character.  '') ''Tama'' ''!'' = Inr (fresh_bot, [])"
  by (simp add: init_bot_def env_int_def example_environ_def py_int_def strip_def is_space_def
      digit_val_def load_base_role_def fresh_bot_def)

lemma init_bare:
  "init_bot bare_environ (Inr ''Stay in character.'') ''Tama'' ''!'' = Inr (open_bot, [])"
  by (simp add: init_bot_def env_int_def bare_environ_def py_int_def strip_def is_space_def
      digit_val_def load_base_role_def open_bot_def fresh_bot_def)

lemma init_fields:
  assumes "init_bot environ file name prefix = Inr (b, effs)"
  shows "in_cooldown b = False"
    and "env_int environ ''CHANNEL_ID'' ''0'' = Inr (channel_id b)"
  using assms
  by (auto simp: init_bot_def split: sum.splits prod.splits)

lemma load_keeps:
  "channel_id (fst (load_character_settings ns b)) = channel_id b"
  "in_cooldown (fst (load_character_settings ns b)) = in_cooldown b"
  "cooldown_until (fst (load_character_settings ns b)) = cooldown_until b"
  "sent_messages (fst (snd (load_character_settings ns b))) = []"
  "snd (snd (load_character_settings ns b)) = None"
  by (simp_all add: load_character_settings_def load_try_def Let_def sent_messages_append
      split: sum.split)

lemma on_ready_keeps:
  "in_cooldown (fst (on_ready ns gw info b)) = in_cooldown b"
  "cooldown_until (fst (on_ready ns gw info b)) = cooldown_until b"
proof -
  obtain b1 effs where l: "load_character_settings ns b = (b1, effs, None)"
    using load_keeps(5) [of ns b] by (cases "load_character_settings ns b") auto
  have "in_cooldown b1 = in_cooldown b" "cooldown_until b1 = cooldown_until b"
    using load_keeps(2,3) [of ns b] l by simp_all
  then show "in_cooldown (fst (on_ready ns gw info b)) = in_cooldown b"
    "cooldown_until (fst (on_ready ns gw info b)) = cooldown_until b"
    by (simp_all add: on_ready_def l Let_def split: option.split)
qed

lemma on_ready_quiet:
  assumes "channel_id b = 0"
  shows "sent_messages (fst (snd (on_ready ns gw info b))) = []"
proof -
  obtain b1 effs where l: "load_character_settings ns b = (b1, effs, None)"
    using load_keeps(5) [of ns b] by (cases "load_character_settings ns b") auto
  have "channel_id b1 = 0" "sent_messages effs = []"
    using load_keeps(1,4) [of ns b] l assms by simp_all
  then show ?thesis
    by (simp add: on_ready_def l)
qed

lemma listening_fields:
  "channel_id listening_bot = 0" "user listening_bot = Some ''zoo-bot''"
  "command_prefix listening_bot = ''!''" "in_cooldown listening_bot = False"
  "max_conversation_turns listening_bot = 10"
  "conversation_manager listening_bot = new_conversation_manager"
  by (simp_all add: listening_bot_def open_bot_def fresh_bot_def)

text \<open>
  Claim C10: when \<open>CHANNEL_ID\<close> is absent from the environment or is \<open>0\<close>, the bot that
  \<open>__init__\<close> builds has \<open>channel_id\<close> 0. For a bot with that channel id the channel
  of a message plays no part: a message from any channel, from another user, not a command,
  handled while the bot is not cooling down, is appended to the store as a turn, and unless
  it brings the turn count to the limit, a response task is created when the hook agrees.
  At startup \<open>on_ready\<close> sends nothing to any channel.
\<close>

theorem no_channel_id_disables_filter:
  assumes "environ ''CHANNEL_ID'' = None \<or> environ ''CHANNEL_ID'' = Some ''0''"
    and "init_bot environ file name prefix = Inr (b0, effs)"
  shows "channel_id b0 = 0 \<and>
    (\<forall>b m hook randint now.
       channel_id b = channel_id b0 \<longrightarrow> Some (msg_author m) \<noteq> user b \<longrightarrow>
       \<not> startswith (msg_content m) (command_prefix b) \<longrightarrow> \<not> in_cooldown b \<longrightarrow>
         history (conversation_manager (fst (on_message hook randint now b m))) =
           history (conversation_manager b) @
             [\<lparr>utt_author = msg_display_name m, utt_content = msg_content m,
               is_bot_reply = False\<rparr>] \<and>
         (\<not> should_cool_down
              (add_message (msg_display_name m) (msg_content m) None (conversation_manager b))
              (max_conversation_turns b) \<longrightarrow>
            created_tasks (snd (on_message hook randint now b m)) =
              (if hook m then [RespondToMessage m] else []))) \<and>
    (\<forall>b ns gw info.
       channel_id b = channel_id b0 \<longrightarrow>
         sent_messages (fst (snd (on_ready ns gw info b))) = [])"
proof -
  have "env_int environ ''CHANNEL_ID'' ''0'' = Inr 0"
    using assms(1) by (auto simp: env_int_def py_int_zero)
  with init_fields(2) [OF assms(2)] have zero: "channel_id b0 = 0"
    by simp
  show ?thesis
    using zero
    by (auto simp add: on_message_def Let_def add_message_def reset_conversation_turns_def
        on_ready_quiet)
qed

theorem no_channel_id_disables_filter_witness:
  "bare_environ ''CHANNEL_ID'' = None \<and>
   channel_id open_bot = 0 \<and>
   msg_channel_id elsewhere = 7 \<and>
   history (conversation_manager
     (fst (on_message should_respond_to_message lowest 0 listening_bot elsewhere))) =
     [\<lparr>utt_author = ''Alice'', utt_content = ''hello'', is_bot_reply = False\<rparr>] \<and>
   created_tasks (snd (on_message should_respond_to_message lowest 0 listening_bot elsewhere)) =
     [RespondToMessage elsewhere]"
proof -
  have env: "bare_environ ''CHANNEL_ID'' = None \<or> bare_environ ''CHANNEL_ID'' = Some ''0''"
    by (simp add: bare_environ_def)
  have ch: "channel_id open_bot = 0"
    by (simp add: open_bot_def)
  have m: "msg_author elsewhere = ''alice#1''" "msg_content elsewhere = ''hello''"
    "msg_display_name elsewhere = ''Alice''" "msg_channel_id elsewhere = 7"
    by (simp_all add: elsewhere_def)
  from no_channel_id_disables_filter [OF env init_bare]
  have "channel_id listening_bot = channel_id open_bot \<longrightarrow>
     Some (msg_author elsewhere) \<noteq> user listening_bot \<longrightarrow>
     \<not> startswith (msg_content elsewhere) (command_prefix listening_bot) \<longrightarrow>
     \<not> in_cooldown listening_bot \<longrightarrow>
       history (conversation_manager
         (fst (on_message should_respond_to_message lowest 0 listening_bot elsewhere))) =
         history (conversation_manager listening_bot) @
           [\<lparr>utt_author = msg_display_name elsewhere, utt_content = msg_content elsewhere,
             is_bot_reply = False\<rparr>] \<and>
       (\<not> should_cool_down
            (add_message (msg_display_name elsewhere) (msg_content elsewhere) None
               (conversation_manager listening_bot))
            (max_conversation_turns listening_bot) \<longrightarrow>
          created_tasks (snd (on_message should_respond_to_message lowest 0 listening_bot elsewhere)) =
            (if should_respond_to_message elsewhere then [RespondToMessage elsewhere] else []))"
    by blast
  then show ?thesis
    using env
    by (simp add: listening_fields ch m should_cool_down_def add_message_def
        new_conversation_manager_def should_respond_to_message_def bare_environ_def)
qed

section \<open>The cooldown timer\<close>

lemma respond_keeps:
  "in_cooldown (fst (respond_to_message be b m)) = in_cooldown b"
  "cooldown_until (fst (respond_to_message be b m)) = cooldown_until b"
  by (simp_all add: respond_to_message_def respond_try_def Let_def
      split: option.split sum.split)

lemma deliver_cooling:
  "in_cooldown (sys_bot s) \<Longrightarrow> apply_event (Deliver hook randint m) s = s"
  by (simp add: on_message_def)


lemma deliver_active:
  assumes "\<not> in_cooldown (sys_bot s)" and "sys_sleepers s = []"
    and "1 \<le> randint 1 3"
  shows "cooldown_inv (apply_event (Deliver hook randint m) s)"
  using assms
  by (simp add: cooldown_inv_def on_message_def Let_def)

lemma inv_step:
  assumes "cooldown_inv s" and "enabled ev s"
  shows "cooldown_inv (apply_event ev s)"
proof (cases ev)
  case (Deliver hook randint m)
  show ?thesis
  proof (cases "in_cooldown (sys_bot s)")
    case True
    with assms(1) show ?thesis
      by (simp add: Deliver deliver_cooling del: apply_event.simps)
  next
    case False
    with assms Deliver have "sys_sleepers s = []" and "1 \<le> randint 1 3"
      by (simp_all add: cooldown_inv_def)
    then show ?thesis
      unfolding Deliver by (rule deliver_active [OF False])
  qed
next
  case (Wake i)
  with assms show ?thesis
    by (auto simp add: cooldown_inv_def reset_cooldown_after_resume_def remove_nth_def
        split: if_splits)
next
  case (Reply be i)
  with assms(1) show ?thesis
    by (simp add: cooldown_inv_def respond_keeps)
next
  case (Ready ns gw info)
  with assms(1) show ?thesis
    by (simp add: cooldown_inv_def on_ready_keeps)
next
  case (Advance t)
  with assms show ?thesis
    by (auto simp add: cooldown_inv_def)
qed

lemma reachable_inv: "reachable s \<Longrightarrow> cooldown_inv s"
proof (induction rule: reachable.induct)
  case (initial env fl nm pre b effs u t0)
  then show ?case
    by (simp add: cooldown_inv_def start_def init_fields(1))
next
  case (step s ev)
  then show ?case
    by (simp add: inv_step)
qed

lemma cooling_system_reachable: "reachable cooling_system"
proof -
  have r0: "reachable (start fresh_bot ''zoo-bot'' 0)"
    by (rule reachable.initial [OF init_example])
  have en: "enabled (Deliver should_respond_to_message lowest hello) s" for s
    by (simp add: lowest_def)
  have r1: "reachable (apply_event (Deliver should_respond_to_message lowest hello)
      (start fresh_bot ''zoo-bot'' 0))"
    by (rule reachable.step [OF r0 en])
  have "reachable (apply_event (Deliver should_respond_to_message lowest hello)
      (apply_event (Deliver should_respond_to_message lowest hello)
        (start fresh_bot ''zoo-bot'' 0)))"
    by (rule reachable.step [OF r1 en])
  then show ?thesis
    by (simp add: cooling_system_def del: apply_event.simps)
qed

lemma first_hello:
  "on_message should_respond_to_message lowest 0 (fresh_bot\<lparr>user := Some ''zoo-bot''\<rparr>) hello =
     (busy_bot\<lparr>conversation_manager :=
         add_message ''Alice'' ''hello'' None new_conversation_manager\<rparr>,
      [ProcessCommands hello, CreateTask (RespondToMessage hello)])"
  by (simp add: on_message_def fresh_bot_def hello_def busy_bot_def example_bot_def
      should_cool_down_def add_message_def new_conversation_manager_def
      should_respond_to_message_def)

lemma second_hello:
  "on_message should_respond_to_message lowest 0
     (busy_bot\<lparr>conversation_manager :=
         add_message ''Alice'' ''hello'' None new_conversation_manager\<rparr>) hello =
     (busy_bot\<lparr>conversation_manager :=
         reset_conversation_turns
           (add_message ''Alice'' ''hello'' None
              (add_message ''Alice'' ''hello'' None new_conversation_manager)),
        in_cooldown := True, cooldown_until := 60\<rparr>,
      [ProcessCommands hello, Log INFO (CoolingDownAfterTurns 2),
       CreateTask (ResetCooldownAfter 1)])"
  by (simp add: on_message_def fresh_bot_def hello_def busy_bot_def example_bot_def
      should_cool_down_def add_message_def new_conversation_manager_def lowest_def
      reset_conversation_turns_def)

lemma cooling_system_state:
  "in_cooldown (sys_bot cooling_system)"
  "cooldown_until (sys_bot cooling_system) = 60"
  "sys_sleepers cooling_system = [60]"
  "sys_clock cooling_system = 0"
  "sys_responders cooling_system = [hello]"
  by (simp_all add: cooling_system_def start_def first_hello second_hello)

text \<open>
  Claim C8: in every reachable state of the event loop at most one \<open>reset_cooldown_after\<close>
  task is pending, and one is pending exactly when the bot is cooling down. While one is
  pending, \<open>on_message\<close> creates no task for any message, hook and random draw, so the
  code that schedules a timer is not reached, and the delivery leaves the whole state as it
  was.
\<close>

theorem one_timer_at_most:
  "reachable s \<Longrightarrow>
     length (sys_sleepers s) \<le> 1 \<and>
     (sys_sleepers s \<noteq> [] \<longleftrightarrow> in_cooldown (sys_bot s)) \<and>
     (sys_sleepers s \<noteq> [] \<longrightarrow>
        (\<forall>hook randint now m.
           created_tasks (snd (on_message hook randint now (sys_bot s) m)) = [] \<and>
           apply_event (Deliver hook randint m) s = s))"
proof -
  assume "reachable s"
  then have inv: "cooldown_inv s" by (rule reachable_inv)
  then have a: "length (sys_sleepers s) \<le> 1"
    and b: "sys_sleepers s \<noteq> [] \<longleftrightarrow> in_cooldown (sys_bot s)"
    by (auto simp: cooldown_inv_def split: if_splits)
  have c: "created_tasks (snd (on_message hook randint now (sys_bot s) m)) = [] \<and>
           apply_event (Deliver hook randint m) s = s"
    if "sys_sleepers s \<noteq> []" for hook randint now m
  proof -
    from that b have cool: "in_cooldown (sys_bot s)" by simp
    then show ?thesis
      by (simp add: deliver_cooling) (simp add: on_message_def)
  qed
  show ?thesis
    using a b c by blast
qed

theorem one_timer_at_most_witness:
  "reachable cooling_system \<and>
   sys_sleepers cooling_system = [60] \<and>
   in_cooldown (sys_bot cooling_system) \<and>
   created_tasks
     (snd (on_message should_respond_to_message highest 30 (sys_bot cooling_system) hello)) = [] \<and>
   apply_event (Deliver should_respond_to_message highest hello) cooling_system = cooling_system"
  using one_timer_at_most [OF cooling_system_reachable, THEN conjunct2, THEN conjunct2,
      rule_format, of should_respond_to_message highest 30 hello]
    cooling_system_reachable
  by (simp add: cooling_system_state del: apply_event.simps)




end
